theory Spec2Isabelle
  imports Complex_Main
begin

section \<open>Tensor shapes and errors\<close>

text \<open>
  The network code of the repository is shape bookkeeping around TensorFlow layers.
  A rank-4 tensor \<open>[batch, height, width, channels]\<close> is represented by its static
  shape; Python's unbounded integers are \<open>int\<close>. Python's \<open>%\<close> and \<open>//\<close> are floor
  modulus and floor division, which is what \<open>mod\<close> and \<open>div\<close> on \<open>int\<close> compute for a
  non-zero divisor; a zero divisor raises in Python and is an error value here.
\<close>

record shape =
  batch :: int
  height :: int
  width :: int
  channels :: int

datatype error =
  ZeroDivisionError
  | InvalidArgumentError
  | ValueError
  | TypeError

datatype pad_mode = CONSTANT | REFLECT | SYMMETRIC

type_synonym paddings = "(int \<times> int) \<times> (int \<times> int) \<times> (int \<times> int) \<times> (int \<times> int)"

text \<open>Sequencing of fallible steps: the first error is the result.\<close>

definition and_then :: "error + 'a \<Rightarrow> ('a \<Rightarrow> error + 'b) \<Rightarrow> error + 'b" where
  "and_then r f = (case r of Inl e \<Rightarrow> Inl e | Inr x \<Rightarrow> f x)"

section \<open>Floating-point rounding\<close>

text \<open>\<open>tf.round\<close> rounds half to even.\<close>

definition tf_round :: "real \<Rightarrow> int" where
  "tf_round x =
     (let f = \<lfloor>x\<rfloor>; d = x - of_int f
      in if d < 1 / 2 then f
         else if 1 / 2 < d then f + 1
         else if even f then f else f + 1)"

text \<open>
  The number of binary digits of a natural number, and the integer nearest to \<open>m\<close>
  among those with at most \<open>p\<close> significant binary digits, ties going to the even
  significand. Scaling by a power of two does not change which digits are kept, so
  \<open>round_to_bits p m / 2\<close> is \<open>m / 2\<close> rounded to a binary floating-point format
  with a \<open>p\<close>-bit significand (53 bits for a Python float, 24 for \<open>float32\<close>);
  magnitudes outside the exponent range of the format are not modelled.
\<close>

fun bit_length :: "nat \<Rightarrow> nat" where
  "bit_length n = (if n = 0 then 0 else Suc (bit_length (n div 2)))"

declare bit_length.simps [simp del]

definition round_to_bits :: "nat \<Rightarrow> int \<Rightarrow> int" where
  "round_to_bits p m =
     (let k = bit_length (nat \<bar>m\<bar>) - p
      in tf_round (of_int m / 2 ^ k) * 2 ^ k)"

section \<open>Stride padding (experiments/baseline\_fastfcn.py)\<close>

text \<open>
  \<open>tf.pad\<close> on one dimension of extent \<open>d\<close> with the pair \<open>(before, after)\<close>: the
  result has extent \<open>before + d + after\<close>. A negative padding is rejected when the
  function is traced (\<open>ValueError\<close>); in \<open>REFLECT\<close> mode both paddings must be smaller
  than \<open>d\<close>, in \<open>SYMMETRIC\<close> mode no larger than \<open>d\<close>.
\<close>

definition tf_pad_dim :: "pad_mode \<Rightarrow> int \<Rightarrow> int \<times> int \<Rightarrow> error + int" where
  "tf_pad_dim mode d p =
     (case p of (before, after) \<Rightarrow>
        if before < 0 \<or> after < 0 then Inl ValueError
        else if mode = REFLECT \<and> (d \<le> before \<or> d \<le> after) then Inl InvalidArgumentError
        else if mode = SYMMETRIC \<and> (d < before \<or> d < after) then Inl InvalidArgumentError
        else Inr (before + d + after))"

definition tf_pad :: "shape \<Rightarrow> paddings \<Rightarrow> pad_mode \<Rightarrow> error + shape" where
  "tf_pad inputs pads mode =
     (case pads of (pb, py, px, pc) \<Rightarrow>
        and_then (tf_pad_dim mode (batch inputs) pb) (\<lambda>b.
        and_then (tf_pad_dim mode (height inputs) py) (\<lambda>h.
        and_then (tf_pad_dim mode (width inputs) px) (\<lambda>w.
        and_then (tf_pad_dim mode (channels inputs) pc) (\<lambda>c.
          Inr \<lparr>batch = b, height = h, width = w, channels = c\<rparr>)))))"

text \<open>
  \<open>tf.math.ceil(missing / 2)\<close>: the true division gives a Python float (a 53-bit
  significand), \<open>tf.math.ceil\<close> converts it to a \<open>float32\<close> tensor (a 24-bit
  significand) and takes the ceiling. Up to \<open>2^24\<close> every half-integer is a
  \<open>float32\<close> and the result is the exact ceiling; beyond, the conversion rounds first.
\<close>

definition ceil_half :: "int \<Rightarrow> int" where
  "ceil_half m = \<lceil>real_of_int (round_to_bits 24 (round_to_bits 53 m)) / 2\<rceil>"

text \<open>
  The local variable \<open>paddings\<close> of \<open>pad_to_stride\<close>:
  \<^verbatim>\<open>
    missing_y = target_stride - (inputs.shape[1] % target_stride)
    missing_x = target_stride - (inputs.shape[2] % target_stride)
    paddings = ((0, 0),
                (missing_y // 2, tf.math.ceil(missing_y / 2)),
                (missing_x // 2, tf.math.ceil(missing_x / 2)),
                (0, 0))
  \<close>
\<close>

definition pad_to_stride_paddings :: "shape \<Rightarrow> int \<Rightarrow> error + paddings" where
  "pad_to_stride_paddings inputs target_stride =
     (if target_stride = 0 then Inl ZeroDivisionError
      else
        let missing_y = target_stride - (height inputs mod target_stride);
            missing_x = target_stride - (width inputs mod target_stride)
        in Inr ((0, 0),
                (missing_y div 2, ceil_half missing_y),
                (missing_x div 2, ceil_half missing_x),
                (0, 0)))"

definition pad_to_stride :: "shape \<Rightarrow> int \<Rightarrow> pad_mode \<Rightarrow> error + shape" where
  "pad_to_stride inputs target_stride mode =
     and_then (pad_to_stride_paddings inputs target_stride)
       (\<lambda>pads. tf_pad inputs pads mode)"






section \<open>Keras layers\<close>

text \<open>
  A layer object is described by its class and the constructor arguments that matter
  here. What a layer computes depends on its weights, which the code does not fix: an
  interpretation \<open>apply\<close> maps the place of a layer object in the model (the path of
  attribute names and list indices that leads to it) and its description to the
  function it computes on tensors of type \<open>'a\<close>. On shapes the interpretation is
  \<open>layer_shape\<close>. The arguments of \<open>Conv2D\<close> are filters, kernel size, strides, padding
  and \<open>use_bias\<close>; those of \<open>SeparableConv2D\<close> are filters, kernel size, padding and
  dilation rate (its depth multiplier is 1 and it has no bias throughout).
\<close>

datatype padding = Same | Valid

datatype interpolation = Nearest | Bilinear

datatype layer =
  Conv2D int int "int \<times> int" padding bool
  | SeparableConv2D int int padding int
  | BatchNormalization
  | ReLU
  | MaxPooling2D "int \<times> int"
  | UpSampling2D "int \<times> int" interpolation
  | SpatialDropout2D real

datatype path_item = Attr string | Index nat

type_synonym 'a layer_map = "path_item list \<Rightarrow> layer \<Rightarrow> 'a \<Rightarrow> 'a"

text \<open>
  The constructors of the layers reject a filter count, kernel size, stride, dilation
  rate, pool size or upsampling factor that is not positive, and a dropout rate outside
  \<open>[0, 1]\<close>, with \<open>ValueError\<close>.
\<close>

fun layer_valid :: "layer \<Rightarrow> bool" where
  "layer_valid (Conv2D filters kernel_size strides pad use_bias) =
     (0 < filters \<and> 0 < kernel_size \<and> 0 < fst strides \<and> 0 < snd strides)"
| "layer_valid (SeparableConv2D filters kernel_size pad dilation_rate) =
     (0 < filters \<and> 0 < kernel_size \<and> 0 < dilation_rate)"
| "layer_valid BatchNormalization = True"
| "layer_valid ReLU = True"
| "layer_valid (MaxPooling2D pool_size) = (0 < fst pool_size \<and> 0 < snd pool_size)"
| "layer_valid (UpSampling2D factors method) = (0 < fst factors \<and> 0 < snd factors)"
| "layer_valid (SpatialDropout2D rate) = (0 \<le> rate \<and> rate \<le> 1)"

definition new_layer :: "'a layer_map \<Rightarrow> path_item list \<Rightarrow> layer \<Rightarrow> error + ('a \<Rightarrow> 'a)" where
  "new_layer apply self l = (if layer_valid l then Inr (apply self l) else Inl ValueError)"

text \<open>
  Keras computes the spatial extent of a convolution or pooling output with
  \<open>conv_output_length(input_length, filter_size, padding, stride, dilation)\<close>.
\<close>

definition conv_output_length :: "int \<Rightarrow> int \<Rightarrow> padding \<Rightarrow> int \<Rightarrow> int \<Rightarrow> int" where
  "conv_output_length input_length filter_size pad stride dilation =
     (let dilated_filter_size = filter_size + (filter_size - 1) * (dilation - 1);
          output_length = (case pad of
                             Same \<Rightarrow> input_length
                           | Valid \<Rightarrow> input_length - dilated_filter_size + 1)
      in (output_length + stride - 1) div stride)"

fun layer_shape :: "layer \<Rightarrow> shape \<Rightarrow> shape" where
  "layer_shape (Conv2D filters kernel_size strides pad use_bias) inputs =
     \<lparr>batch = batch inputs,
      height = conv_output_length (height inputs) kernel_size pad (fst strides) 1,
      width = conv_output_length (width inputs) kernel_size pad (snd strides) 1,
      channels = filters\<rparr>"
| "layer_shape (SeparableConv2D filters kernel_size pad dilation_rate) inputs =
     \<lparr>batch = batch inputs,
      height = conv_output_length (height inputs) kernel_size pad 1 dilation_rate,
      width = conv_output_length (width inputs) kernel_size pad 1 dilation_rate,
      channels = filters\<rparr>"
| "layer_shape BatchNormalization inputs = inputs"
| "layer_shape ReLU inputs = inputs"
| "layer_shape (MaxPooling2D pool_size) inputs =
     inputs\<lparr>height := conv_output_length (height inputs) (fst pool_size) Valid (fst pool_size) 1,
            width := conv_output_length (width inputs) (snd pool_size) Valid (snd pool_size) 1\<rparr>"
| "layer_shape (UpSampling2D factors method) inputs =
     inputs\<lparr>height := height inputs * fst factors, width := width inputs * snd factors\<rparr>"
| "layer_shape (SpatialDropout2D rate) inputs = inputs"

definition shape_layers :: "shape layer_map" where
  "shape_layers self l = layer_shape l"

text \<open>
  \<open>tf.concat(values, axis=-1)\<close>: every dimension but the last must agree; the channel
  counts add up.
\<close>

definition tf_concat :: "shape list \<Rightarrow> error + shape" where
  "tf_concat tensors =
     (case tensors of
        [] \<Rightarrow> Inl ValueError
      | v # vs \<Rightarrow>
          if list_all (\<lambda>u. batch u = batch v \<and> height u = height v \<and> width u = width v) vs
          then Inr (v\<lparr>channels := sum_list (map channels (v # vs))\<rparr>)
          else Inl InvalidArgumentError)"

text \<open>
  \<open>tf.image.resize_with_crop_or_pad(image, target_height, target_width)\<close> crops or
  zero-pads centrally to the target extent; the targets and the inner three dimensions
  of the image must be positive.
\<close>

definition resize_with_crop_or_pad :: "shape \<Rightarrow> int \<Rightarrow> int \<Rightarrow> error + shape" where
  "resize_with_crop_or_pad img target_height target_width =
     (if target_width \<le> 0 \<or> target_height \<le> 0 then Inl ValueError
      else if height img \<le> 0 \<or> width img \<le> 0 \<or> channels img \<le> 0
      then Inl ValueError
      else Inr (img\<lparr>height := target_height, width := target_width\<rparr>))"

text \<open>The Python slice \<open>xs[-3:]\<close>: the last three elements, or all of a shorter list.\<close>

definition last_three :: "'a list \<Rightarrow> 'a list" where
  "last_three xs = drop (length xs - 3) xs"

text \<open>A list comprehension whose elements may fail: the first failure is the result.\<close>

fun collect :: "(error + 'a) list \<Rightarrow> error + 'a list" where
  "collect [] = Inr []"
| "collect (r # rs) = and_then r (\<lambda>x. and_then (collect rs) (\<lambda>xs. Inr (x # xs)))"

section \<open>Joint pyramid upsampling and heads (models/fastfcn.py)\<close>

text \<open>
  Every class is modelled by its constructor, which creates the layers (and fails where
  a layer constructor fails) and returns the \<open>call\<close> method of the new object.
\<close>

definition OUTPUT_STRIDE :: int where
  "OUTPUT_STRIDE = 8"

definition JPUInputBlock ::
  "'a layer_map \<Rightarrow> path_item list \<Rightarrow> int \<Rightarrow> error + ('a \<Rightarrow> 'a)" where
  "JPUInputBlock apply self features =
     and_then (new_layer apply (self @ [Attr ''conv''])
                 (Conv2D features 3 (1, 1) Same False)) (\<lambda>conv.
     and_then (new_layer apply (self @ [Attr ''batch_norm'']) BatchNormalization) (\<lambda>batch_norm.
     and_then (new_layer apply (self @ [Attr ''activation'']) ReLU) (\<lambda>activation.
       Inr (\<lambda>inputs.
         let features1 = conv inputs;
             features2 = batch_norm features1;
             output = activation features2
         in output))))"

definition JPUSeparableBlock ::
  "'a layer_map \<Rightarrow> path_item list \<Rightarrow> int \<Rightarrow> int \<Rightarrow> error + ('a \<Rightarrow> 'a)" where
  "JPUSeparableBlock apply self features dilation_rate =
     and_then (new_layer apply (self @ [Attr ''conv''])
                 (SeparableConv2D features 3 Same dilation_rate)) (\<lambda>conv.
     and_then (new_layer apply (self @ [Attr ''batch_norm'']) BatchNormalization) (\<lambda>batch_norm.
     and_then (new_layer apply (self @ [Attr ''activation'']) ReLU) (\<lambda>activation.
       Inr (\<lambda>inputs.
         let features1 = conv inputs;
             features2 = batch_norm features1;
             output = activation features2
         in output))))"

definition JPUModule_INTERPOLATION :: interpolation where
  "JPUModule_INTERPOLATION = Bilinear"

definition JPUModule_DILATION_RATES :: "int list" where
  "JPUModule_DILATION_RATES = [1, 2, 4, 8]"

text \<open>
  \<open>JPUModule\<close>: \<open>concatenate\<close> is \<open>tf.concat(..., axis=-1)\<close> on the tensor type. Unpacking
  \<open>inputs\<close> into three names raises \<open>ValueError\<close> for any other length.
\<close>

definition JPUModule ::
  "'a layer_map \<Rightarrow> ('a list \<Rightarrow> error + 'a) \<Rightarrow> path_item list \<Rightarrow> int \<Rightarrow>
   error + ('a list \<Rightarrow> error + 'a)" where
  "JPUModule apply concatenate self features =
     and_then (JPUInputBlock apply (self @ [Attr ''initial_s32'']) features) (\<lambda>initial_s32.
     and_then (JPUInputBlock apply (self @ [Attr ''initial_s16'']) features) (\<lambda>initial_s16.
     and_then (JPUInputBlock apply (self @ [Attr ''initial_s8'']) features) (\<lambda>initial_s8.
     and_then (new_layer apply (self @ [Attr ''upsampling_s32''])
                 (UpSampling2D (4, 4) JPUModule_INTERPOLATION)) (\<lambda>upsampling_s32.
     and_then (new_layer apply (self @ [Attr ''upsampling_s16''])
                 (UpSampling2D (2, 2) JPUModule_INTERPOLATION)) (\<lambda>upsampling_s16.
     and_then (collect
                 (map (\<lambda>(i, dilation_rate).
                         JPUSeparableBlock apply (self @ [Attr ''separable_blocks'', Index i])
                           features dilation_rate)
                    (enumerate 0 JPUModule_DILATION_RATES))) (\<lambda>separable_blocks.
       Inr (\<lambda>inputs.
         case inputs of
           [inputs_s8, inputs_s16, inputs_s32] \<Rightarrow>
             let features_s8 = initial_s8 inputs_s8;
                 features_s16 = initial_s16 inputs_s16;
                 features_s32 = initial_s32 inputs_s32;
                 upsampled_s16 = upsampling_s16 features_s16;
                 upsampled_s32 = upsampling_s32 features_s32
             in and_then (concatenate [features_s8, upsampled_s16, upsampled_s32])
                  (\<lambda>dilation_inputs.
                     let dilation_outputs = map (\<lambda>block. block dilation_inputs) separable_blocks
                     in concatenate dilation_outputs)
         | _ \<Rightarrow> Inl ValueError)))))))"

text \<open>
  The module as the specification words it: every input goes through a 3x3 convolution,
  normalisation and rectification of the common width; the stride-16 and stride-32
  results are upsampled by 2 and by 4; the three are concatenated; the concatenation
  goes through four separable convolutions with dilation rates 1, 2, 4, 8, each
  normalised and rectified; the four outputs are concatenated.
\<close>

definition spec_normalised_rectified ::
  "'a layer_map \<Rightarrow> path_item list \<Rightarrow> layer \<Rightarrow> 'a \<Rightarrow> 'a" where
  "spec_normalised_rectified apply self convolution x =
     apply (self @ [Attr ''activation'']) ReLU
       (apply (self @ [Attr ''batch_norm'']) BatchNormalization
          (apply (self @ [Attr ''conv'']) convolution x))"

definition spec_jpu ::
  "'a layer_map \<Rightarrow> ('a list \<Rightarrow> error + 'a) \<Rightarrow> path_item list \<Rightarrow> int \<Rightarrow>
   'a \<Rightarrow> 'a \<Rightarrow> 'a \<Rightarrow> error + 'a" where
  "spec_jpu apply concatenate self F s8 s16 s32 =
     and_then
       (concatenate
          [spec_normalised_rectified apply (self @ [Attr ''initial_s8''])
             (Conv2D F 3 (1, 1) Same False) s8,
           apply (self @ [Attr ''upsampling_s16'']) (UpSampling2D (2, 2) Bilinear)
             (spec_normalised_rectified apply (self @ [Attr ''initial_s16''])
                (Conv2D F 3 (1, 1) Same False) s16),
           apply (self @ [Attr ''upsampling_s32'']) (UpSampling2D (4, 4) Bilinear)
             (spec_normalised_rectified apply (self @ [Attr ''initial_s32''])
                (Conv2D F 3 (1, 1) Same False) s32)])
       (\<lambda>fused.
          concatenate
            [spec_normalised_rectified apply (self @ [Attr ''separable_blocks'', Index 0])
               (SeparableConv2D F 3 Same 1) fused,
             spec_normalised_rectified apply (self @ [Attr ''separable_blocks'', Index 1])
               (SeparableConv2D F 3 Same 2) fused,
             spec_normalised_rectified apply (self @ [Attr ''separable_blocks'', Index 2])
               (SeparableConv2D F 3 Same 4) fused,
             spec_normalised_rectified apply (self @ [Attr ''separable_blocks'', Index 3])
               (SeparableConv2D F 3 Same 8) fused])"

text \<open>
  \<open>EncoderHead\<close>. The context-encoding module \<open>rs.models.encnet.ContextEncodingModule\<close>
  is not part of the sources at hand; it is the parameter \<open>encoder\<close>, which returns the
  re-weighted features and the encoding for the SE loss.
\<close>

definition EncoderHead ::
  "'a layer_map \<Rightarrow> ('a \<Rightarrow> error + 'a \<times> 'l) \<Rightarrow> path_item list \<Rightarrow> int \<Rightarrow> real \<Rightarrow>
   error + ('a \<Rightarrow> error + 'a \<times> 'l)" where
  "EncoderHead apply encoder self intermediate_features dropout_rate =
     and_then (new_layer apply (self @ [Attr ''conv_in''])
                 (Conv2D intermediate_features 1 (1, 1) Valid False)) (\<lambda>conv_in.
     and_then (new_layer apply (self @ [Attr ''batch_norm_in'']) BatchNormalization) (\<lambda>batch_norm_in.
     and_then (new_layer apply (self @ [Attr ''activation_in'']) ReLU) (\<lambda>activation_in.
     and_then (new_layer apply (self @ [Attr ''dropout''])
                 (SpatialDropout2D dropout_rate)) (\<lambda>dropout.
     and_then (new_layer apply (self @ [Attr ''conv_out''])
                 (Conv2D 1 1 (1, 1) Valid True)) (\<lambda>conv_out.
       Inr (\<lambda>inputs.
         let compressed_features1 = conv_in inputs;
             compressed_features2 = batch_norm_in compressed_features1;
             compressed_features = activation_in compressed_features2
         in and_then (encoder compressed_features)
              (\<lambda>(weighted_features, se_loss_features).
                 let pre_output_features = dropout weighted_features;
                     output_features = conv_out pre_output_features
                 in Inr (output_features, se_loss_features))))))))"

definition FCNHeadNoContext ::
  "'a layer_map \<Rightarrow> path_item list \<Rightarrow> int \<Rightarrow> real \<Rightarrow> error + ('a \<Rightarrow> 'a)" where
  "FCNHeadNoContext apply self intermediate_features dropout_rate =
     and_then (new_layer apply (self @ [Attr ''conv_in''])
                 (Conv2D intermediate_features 1 (1, 1) Valid False)) (\<lambda>conv_in.
     and_then (new_layer apply (self @ [Attr ''batch_norm_in'']) BatchNormalization) (\<lambda>batch_norm_in.
     and_then (new_layer apply (self @ [Attr ''activation_in'']) ReLU) (\<lambda>activation_in.
     and_then (new_layer apply (self @ [Attr ''dropout''])
                 (SpatialDropout2D dropout_rate)) (\<lambda>dropout.
     and_then (new_layer apply (self @ [Attr ''conv_out''])
                 (Conv2D 1 1 (1, 1) Valid True)) (\<lambda>conv_out.
       Inr (\<lambda>inputs.
         let compressed_features1 = conv_in inputs;
             compressed_features2 = batch_norm_in compressed_features1;
             compressed_features = activation_in compressed_features2;
             pre_output_features = dropout compressed_features;
             output_features = conv_out pre_output_features
         in output_features))))))"

definition FCNHead ::
  "'a layer_map \<Rightarrow> path_item list \<Rightarrow> int \<Rightarrow> real \<Rightarrow> error + ('a \<Rightarrow> 'a)" where
  "FCNHead apply self intermediate_features dropout_rate =
     and_then (new_layer apply (self @ [Attr ''conv_in''])
                 (Conv2D intermediate_features 1 (1, 1) Valid False)) (\<lambda>conv_in.
     and_then (new_layer apply (self @ [Attr ''batch_norm_in'']) BatchNormalization) (\<lambda>batch_norm_in.
     and_then (new_layer apply (self @ [Attr ''activation_in'']) ReLU) (\<lambda>activation_in.
     and_then (new_layer apply (self @ [Attr ''conv_middle''])
                 (Conv2D intermediate_features 3 (1, 1) Same False)) (\<lambda>conv_middle.
     and_then (new_layer apply (self @ [Attr ''batch_norm_middle'']) BatchNormalization)
       (\<lambda>batch_norm_middle.
     and_then (new_layer apply (self @ [Attr ''activation_middle'']) ReLU) (\<lambda>activation_middle.
     and_then (new_layer apply (self @ [Attr ''dropout''])
                 (SpatialDropout2D dropout_rate)) (\<lambda>dropout.
     and_then (new_layer apply (self @ [Attr ''conv_out''])
                 (Conv2D 1 1 (1, 1) Valid True)) (\<lambda>conv_out.
       Inr (\<lambda>inputs.
         let compressed_features1 = conv_in inputs;
             compressed_features2 = batch_norm_in compressed_features1;
             compressed_features = activation_in compressed_features2;
             intermediate_features1 = conv_middle compressed_features;
             intermediate_features2 = batch_norm_middle intermediate_features1;
             intermediate_features3 = activation_middle intermediate_features2;
             intermediate_features4 = dropout intermediate_features3;
             output_features = conv_out intermediate_features4
         in output_features)))))))))"

section \<open>ResNet backbone (models/resnet.py)\<close>

text \<open>
  A Python value that is either a tensor or \<open>None\<close> is a \<open>shape option\<close>.
  The body of \<open>ResNetLayer.call\<close> is \<open>pass\<close>: it returns \<open>None\<close> for every input.
\<close>

definition ResNetLayer_call :: "int \<Rightarrow> int \<Rightarrow> bool \<Rightarrow> shape option \<Rightarrow> shape option" where
  "ResNetLayer_call blocks initial_features downsample inputs = None"

definition ResNetBackbone_INITIAL_FILTERS :: int where
  "ResNetBackbone_INITIAL_FILTERS = 64"

text \<open>
  The list \<open>residual_layers\<close> of the constructor: one layer per entry of \<open>blocks\<close>, of
  width \<open>64 * 2 ** idx\<close>, downsampling for \<open>idx > 0\<close>.
\<close>

definition ResNetBackbone_residual_layers :: "int list \<Rightarrow> (shape option \<Rightarrow> shape option) list" where
  "ResNetBackbone_residual_layers blocks =
     map (\<lambda>(idx, current_blocks).
            ResNetLayer_call current_blocks (ResNetBackbone_INITIAL_FILTERS * 2 ^ idx) (idx > 0))
       (enumerate 0 blocks)"

definition ResNetBackbone_call :: "int list \<Rightarrow> shape \<Rightarrow> shape option" where
  "ResNetBackbone_call blocks inputs =
     (let initial_features1 =
            layer_shape (Conv2D ResNetBackbone_INITIAL_FILTERS 7 (2, 2) Same True) inputs;
          initial_features2 = layer_shape BatchNormalization initial_features1;
          initial_features = layer_shape ReLU initial_features2;
          features = layer_shape (MaxPooling2D (2, 2)) initial_features
      in fold (\<lambda>current_layer features. current_layer features)
           (ResNetBackbone_residual_layers blocks) (Some features))"

definition ResNet50Backbone_blocks :: "int list" where
  "ResNet50Backbone_blocks = [3, 4, 6, 3]"

definition ResNet101Backbone_blocks :: "int list" where
  "ResNet101Backbone_blocks = [3, 4, 23, 3]"

text \<open>The stem alone: everything \<open>ResNetBackbone.call\<close> computes before its loop.\<close>

definition ResNetBackbone_stem :: "shape \<Rightarrow> shape" where
  "ResNetBackbone_stem inputs =
     layer_shape (MaxPooling2D (2, 2)) (layer_shape ReLU (layer_shape BatchNormalization
       (layer_shape (Conv2D ResNetBackbone_INITIAL_FILTERS 7 (2, 2) Same True) inputs)))"

text \<open>
  What a backbone object returns when it is called: \<open>None\<close>, one tensor, or a sequence
  of feature maps. The constructors \<open>ResNet50Backbone.__init__(self)\<close> and
  \<open>ResNet101Backbone.__init__(self)\<close> take no argument: a call with keyword arguments
  (given here by their names) raises \<open>TypeError\<close>.
\<close>

datatype py_value = PyNone | PyTensor shape | PySequence "shape list"

type_synonym backbone = "shape \<Rightarrow> error + py_value"

definition ResNetBackbone_object :: "int list \<Rightarrow> backbone" where
  "ResNetBackbone_object blocks inputs =
     Inr (case ResNetBackbone_call blocks inputs of
            None \<Rightarrow> PyNone
          | Some features \<Rightarrow> PyTensor features)"

definition ResNet50Backbone :: "string list \<Rightarrow> error + backbone" where
  "ResNet50Backbone keyword_arguments =
     (if keyword_arguments = [] then Inr (ResNetBackbone_object ResNet50Backbone_blocks)
      else Inl TypeError)"

definition ResNet101Backbone :: "string list \<Rightarrow> error + backbone" where
  "ResNet101Backbone keyword_arguments =
     (if keyword_arguments = [] then Inr (ResNetBackbone_object ResNet101Backbone_blocks)
      else Inl TypeError)"

section \<open>Full models\<close>

text \<open>
  The subscript \<open>[-3:]\<close> on what the backbone returned: \<open>None\<close> is not subscriptable
  (\<open>TypeError\<close>); a sequence gives its last three feature maps; a single tensor is
  sliced along its batch axis, which never gives three feature maps of rank 4: the
  unpacking or the first convolution of \<open>JPUModule.call\<close> raises \<open>ValueError\<close>.
\<close>

definition subscript_last_three :: "py_value \<Rightarrow> error + shape list" where
  "subscript_last_three v =
     (case v of
        PyNone \<Rightarrow> Inl TypeError
      | PySequence features \<Rightarrow> Inr (last_three features)
      | PyTensor t \<Rightarrow> Inl ValueError)"

text \<open>
  \<open>FastFCN\<close> and \<open>FastFCNNoContext\<close>. The backbone is a constructor argument of both
  classes. \<open>rs.util.pad_to_stride\<close> is not part of the sources at hand and is the
  parameter \<open>util_pad_to_stride\<close>. The heads are built with 512 intermediate features.
\<close>

definition FastFCN ::
  "(shape \<Rightarrow> int \<Rightarrow> pad_mode \<Rightarrow> error + shape) \<Rightarrow> (shape \<Rightarrow> error + shape \<times> 'l) \<Rightarrow>
   backbone \<Rightarrow> int \<Rightarrow> real \<Rightarrow> error + (shape \<Rightarrow> error + shape \<times> 'l)" where
  "FastFCN util_pad_to_stride encoder backbone jpu_features head_dropout_rate =
     and_then (JPUModule shape_layers tf_concat [Attr ''upsampling''] jpu_features) (\<lambda>upsampling.
     and_then (EncoderHead shape_layers encoder [Attr ''head''] 512 head_dropout_rate) (\<lambda>head.
       Inr (\<lambda>inputs.
         let input_height = height inputs;
             input_width = width inputs
         in and_then (util_pad_to_stride inputs 32 REFLECT) (\<lambda>padded_inputs.
            and_then (backbone padded_inputs) (\<lambda>backbone_outputs.
            and_then (subscript_last_three backbone_outputs) (\<lambda>intermediate_features.
            and_then (upsampling intermediate_features) (\<lambda>upsampled_features.
            and_then (head upsampled_features) (\<lambda>(small_outputs, loss_features).
            and_then (resize_with_crop_or_pad small_outputs
                        (input_height div 8) (input_width div 8)) (\<lambda>cropped_outputs.
              Inr (cropped_outputs, loss_features))))))))))"

definition FastFCNNoContext ::
  "(shape \<Rightarrow> int \<Rightarrow> pad_mode \<Rightarrow> error + shape) \<Rightarrow>
   backbone \<Rightarrow> int \<Rightarrow> real \<Rightarrow> error + (shape \<Rightarrow> error + shape)" where
  "FastFCNNoContext util_pad_to_stride backbone jpu_features head_dropout_rate =
     and_then (JPUModule shape_layers tf_concat [Attr ''upsampling''] jpu_features) (\<lambda>upsampling.
     and_then (FCNHeadNoContext shape_layers [Attr ''head''] 512 head_dropout_rate) (\<lambda>head.
       Inr (\<lambda>inputs.
         let input_height = height inputs;
             input_width = width inputs
         in and_then (util_pad_to_stride inputs 32 REFLECT) (\<lambda>padded_inputs.
            and_then (backbone padded_inputs) (\<lambda>backbone_outputs.
            and_then (subscript_last_three backbone_outputs) (\<lambda>intermediate_features.
            and_then (upsampling intermediate_features) (\<lambda>upsampled_features.
            let small_outputs = head upsampled_features
            in resize_with_crop_or_pad small_outputs
                 (input_height div 8) (input_width div 8))))))))"

text \<open>
  \<open>TestFastFCN\<close> (experiments/baseline\_fastfcn.py). Its constructor first builds its
  backbone with \<open>rs.models.resnet.ResNet50Backbone(weight_decay=weight_decay)\<close>. The
  module \<open>rs.models.jpu\<close> is not part of the sources at hand: the constructors of its
  \<open>JPUModule\<close> and \<open>FCNHead\<close> are the parameters \<open>jpu_JPUModule\<close> and \<open>jpu_FCNHead\<close>.
  The method \<open>call\<close> reads four attributes of the object, which are its first four
  arguments here.
\<close>

definition TestFastFCN_call ::
  "backbone \<Rightarrow> (shape list \<Rightarrow> error + shape) \<Rightarrow> (shape \<Rightarrow> shape) \<Rightarrow> (shape \<Rightarrow> shape) \<Rightarrow>
   shape \<Rightarrow> error + shape" where
  "TestFastFCN_call self_backbone self_upsampling self_head self_output_upsampling inputs =
     (let input_height = height inputs;
          input_width = width inputs
      in and_then (pad_to_stride inputs 32 REFLECT) (\<lambda>padded_inputs.
         and_then (self_backbone padded_inputs) (\<lambda>backbone_outputs.
         and_then (subscript_last_three backbone_outputs) (\<lambda>intermediate_features.
         and_then (self_upsampling intermediate_features) (\<lambda>upsampled_features.
         let small_outputs = self_head upsampled_features;
             padded_outputs = self_output_upsampling small_outputs
         in resize_with_crop_or_pad padded_outputs input_height input_width)))))"

definition TestFastFCN ::
  "(int \<Rightarrow> error + (shape list \<Rightarrow> error + shape)) \<Rightarrow> (int \<Rightarrow> error + (shape \<Rightarrow> shape)) \<Rightarrow>
   int \<Rightarrow> interpolation \<Rightarrow> error + (shape \<Rightarrow> error + shape)" where
  "TestFastFCN jpu_JPUModule jpu_FCNHead jpu_features output_upsampling =
     and_then (ResNet50Backbone [''weight_decay'']) (\<lambda>self_backbone.
     and_then (jpu_JPUModule jpu_features) (\<lambda>self_upsampling.
     and_then (jpu_FCNHead 256) (\<lambda>self_head.
     and_then (new_layer shape_layers [Attr ''output_upsampling'']
                 (UpSampling2D (8, 8) output_upsampling)) (\<lambda>self_output_upsampling.
       Inr (TestFastFCN_call self_backbone self_upsampling self_head self_output_upsampling)))))"

text \<open>Building a model and calling it on a batch.\<close>

definition build_and_call :: "error + ('a \<Rightarrow> error + 'b) \<Rightarrow> 'a \<Rightarrow> error + 'b" where
  "build_and_call model inputs = and_then model (\<lambda>call. call inputs)"

text \<open>
  The contract the full models document for their backbone argument (``The backbone
  should return 3 tuple of feature maps at strides (8, 16, 32)''), on inputs padded
  to multiples of 32.
\<close>

definition strided_features :: "shape \<Rightarrow> shape list \<Rightarrow> bool" where
  "strided_features padded fs =
     (case fs of
        [s8, s16, s32] \<Rightarrow>
          batch s8 = batch padded \<and> batch s16 = batch padded \<and> batch s32 = batch padded
          \<and> height s8 = height padded div 8 \<and> width s8 = width padded div 8
          \<and> height s16 = height padded div 16 \<and> width s16 = width padded div 16
          \<and> height s32 = height padded div 32 \<and> width s32 = width padded div 32
      | _ \<Rightarrow> False)"

definition backbone_contract :: "backbone \<Rightarrow> bool" where
  "backbone_contract backbone \<longleftrightarrow>
     (\<forall>padded. 32 dvd height padded \<and> 32 dvd width padded \<longrightarrow>
        (\<exists>fs. backbone padded = Inr (PySequence fs) \<and> strided_features padded (last_three fs)))"

definition encoder_contract :: "(shape \<Rightarrow> error + shape \<times> 'l) \<Rightarrow> bool" where
  "encoder_contract encoder \<longleftrightarrow> (\<forall>x. \<exists>l. encoder x = Inr (x, l))"

text \<open>
  Arguments to build a full model with: a backbone of three convolutions with strides
  8, 16 and 32 on its input, and a context-encoding module that keeps the feature shape
  and returns no encoding.
\<close>

definition example_backbone :: backbone where
  "example_backbone inputs =
     Inr (PySequence
            [layer_shape (Conv2D 512 1 (8, 8) Same True) inputs,
             layer_shape (Conv2D 1024 1 (16, 16) Same True) inputs,
             layer_shape (Conv2D 2048 1 (32, 32) Same True) inputs])"

definition unit_encoder :: "shape \<Rightarrow> error + shape \<times> unit" where
  "unit_encoder x = Inr (x, ())"

section \<open>Bottleneck block (models/resnet.py)\<close>

text \<open>
  A \<open>BottleneckBlock\<close> holds eight layers, created by its constructor; \<open>call\<close> applies
  them in sequence. The layers are functions on a tensor type \<open>'a\<close>, so that the same
  \<open>call\<close> can be read on shapes and on values.
\<close>

record 'a BottleneckBlock =
  conv_in :: "'a \<Rightarrow> 'a"
  batch_norm_in :: "'a \<Rightarrow> 'a"
  activation_in :: "'a \<Rightarrow> 'a"
  conv_middle :: "'a \<Rightarrow> 'a"
  batch_norm_middle :: "'a \<Rightarrow> 'a"
  activation_middle :: "'a \<Rightarrow> 'a"
  conv_out :: "'a \<Rightarrow> 'a"
  batch_norm_out :: "'a \<Rightarrow> 'a"

definition BottleneckBlock_call :: "'a BottleneckBlock \<Rightarrow> 'a \<Rightarrow> 'a" where
  "BottleneckBlock_call self inputs =
     (let features_a = conv_in self inputs;
          features_b = batch_norm_in self features_a;
          features1 = activation_in self features_b;
          features_c = conv_middle self features1;
          features_d = batch_norm_middle self features_c;
          features2 = activation_middle self features_d;
          features_e = conv_out self features2;
          output = batch_norm_out self features_e
      in output)"

text \<open>
  The constructor. The arguments \<open>kernel_initializer\<close> and \<open>weight_decay\<close> determine
  the weights of the convolutions, which the interpretation of the layers stands for.
\<close>

definition BottleneckBlock_init ::
  "'a layer_map \<Rightarrow> path_item list \<Rightarrow> int \<Rightarrow> bool \<Rightarrow> error + 'a BottleneckBlock" where
  "BottleneckBlock_init apply self filters_in downsample =
     (let strides_in = (if downsample then (2, 2) else (1, 1))
      in and_then (new_layer apply (self @ [Attr ''conv_in''])
                     (Conv2D filters_in 1 strides_in Same True)) (\<lambda>new_conv_in.
         and_then (new_layer apply (self @ [Attr ''batch_norm_in'']) BatchNormalization)
           (\<lambda>new_batch_norm_in.
         and_then (new_layer apply (self @ [Attr ''activation_in'']) ReLU) (\<lambda>new_activation_in.
         and_then (new_layer apply (self @ [Attr ''conv_middle''])
                     (Conv2D filters_in 3 (1, 1) Same True)) (\<lambda>new_conv_middle.
         and_then (new_layer apply (self @ [Attr ''batch_norm_middle'']) BatchNormalization)
           (\<lambda>new_batch_norm_middle.
         and_then (new_layer apply (self @ [Attr ''activation_middle'']) ReLU)
           (\<lambda>new_activation_middle.
         and_then (new_layer apply (self @ [Attr ''conv_out''])
                     (Conv2D (4 * filters_in) 1 (1, 1) Same True)) (\<lambda>new_conv_out.
         and_then (new_layer apply (self @ [Attr ''batch_norm_out'']) BatchNormalization)
           (\<lambda>new_batch_norm_out.
           Inr \<lparr>conv_in = new_conv_in,
                batch_norm_in = new_batch_norm_in,
                activation_in = new_activation_in,
                conv_middle = new_conv_middle,
                batch_norm_middle = new_batch_norm_middle,
                activation_middle = new_activation_middle,
                conv_out = new_conv_out,
                batch_norm_out = new_batch_norm_out\<rparr>)))))))))"

text \<open>
  The main branch as the specification words it, on the layers themselves: 1x1
  convolution (stride 2 only if the block downsamples), normalise, rectify, 3x3
  convolution, normalise, rectify, 1x1 convolution to four times the width, normalise.
\<close>

definition spec_main_layers :: "int \<Rightarrow> bool \<Rightarrow> (string \<times> layer) list" where
  "spec_main_layers filters_in downsample =
     [(''conv_in'', Conv2D filters_in 1 (if downsample then (2, 2) else (1, 1)) Same True),
      (''batch_norm_in'', BatchNormalization),
      (''activation_in'', ReLU),
      (''conv_middle'', Conv2D filters_in 3 (1, 1) Same True),
      (''batch_norm_middle'', BatchNormalization),
      (''activation_middle'', ReLU),
      (''conv_out'', Conv2D (4 * filters_in) 1 (1, 1) Same True),
      (''batch_norm_out'', BatchNormalization)]"

definition run_layers :: "'a layer_map \<Rightarrow> path_item list \<Rightarrow> (string \<times> layer) list \<Rightarrow> 'a \<Rightarrow> 'a" where
  "run_layers apply self ls inputs =
     fold (\<lambda>(name, l) features. apply (self @ [Attr name]) l features) ls inputs"

text \<open>
  The block as the specification words it: the main branch is the composition of the
  eight layers, and the output rectifies the sum of the main branch and a shortcut.
\<close>

definition spec_main_branch :: "'a BottleneckBlock \<Rightarrow> 'a \<Rightarrow> 'a" where
  "spec_main_branch self =
     batch_norm_out self \<circ> conv_out self
     \<circ> activation_middle self \<circ> batch_norm_middle self \<circ> conv_middle self
     \<circ> activation_in self \<circ> batch_norm_in self \<circ> conv_in self"

definition spec_bottleneck ::
  "('a \<Rightarrow> 'a) \<Rightarrow> ('a \<Rightarrow> 'a \<Rightarrow> 'a) \<Rightarrow> 'a BottleneckBlock \<Rightarrow> ('a \<Rightarrow> 'a) \<Rightarrow> 'a \<Rightarrow> 'a" where
  "spec_bottleneck rectify add self shortcut inputs =
     rectify (add (spec_main_branch self inputs) (shortcut inputs))"

text \<open>
  Values: the channel vector of a one-pixel image. On such an image a convolution with
  \<open>same\<close> padding is a matrix applied to the channel vector plus a bias (of a 3x3 kernel
  only the centre tap meets the pixel), batch normalisation at inference is a scale and
  an offset per channel, and rectification is \<open>max 0\<close> per channel.
\<close>

type_synonym pixel = "int list"

definition conv_pixel :: "int list list \<Rightarrow> int list \<Rightarrow> pixel \<Rightarrow> pixel" where
  "conv_pixel weights bias v =
     map (\<lambda>(row, b). sum_list (map (\<lambda>(w, x). w * x) (zip row v)) + b) (zip weights bias)"

definition batch_norm_pixel :: "(int \<times> int) list \<Rightarrow> pixel \<Rightarrow> pixel" where
  "batch_norm_pixel params v = map (\<lambda>((gain, offset), x). gain * x + offset) (zip params v)"

definition relu_pixel :: "pixel \<Rightarrow> pixel" where
  "relu_pixel v = map (max 0) v"

definition add_pixel :: "pixel \<Rightarrow> pixel \<Rightarrow> pixel" where
  "add_pixel u v = map (\<lambda>(x, y). x + y) (zip u v)"

text \<open>
  A block of bottleneck width 1 on a one-channel pixel: unit kernels, no bias, and an
  output normalisation with offset \<open>-2\<close>; and a 1x1 projection shortcut to 4 channels.
\<close>

definition example_block :: "pixel BottleneckBlock" where
  "example_block =
     \<lparr>conv_in = conv_pixel [[1]] [0],
      batch_norm_in = batch_norm_pixel [(1, 0)],
      activation_in = relu_pixel,
      conv_middle = conv_pixel [[1]] [0],
      batch_norm_middle = batch_norm_pixel [(1, 0)],
      activation_middle = relu_pixel,
      conv_out = conv_pixel [[1], [1], [1], [1]] [0, 0, 0, 0],
      batch_norm_out = batch_norm_pixel [(1, - 2), (1, - 2), (1, - 2), (1, - 2)]\<rparr>"

definition example_shortcut :: "pixel \<Rightarrow> pixel" where
  "example_shortcut = conv_pixel [[1], [1], [1], [1]] [0, 0, 0, 0]"

text \<open>
  The interpretation of the layers that gives the example block: every convolution has
  unit kernels and no bias, and the output normalisation has offset \<open>-2\<close>.
\<close>

definition example_layers :: "pixel layer_map" where
  "example_layers self l =
     (case l of
        Conv2D filters kernel_size strides pad use_bias \<Rightarrow>
          conv_pixel (replicate (nat filters) [1]) (replicate (nat filters) 0)
      | BatchNormalization \<Rightarrow>
          (if self = [Attr ''batch_norm_out''] then batch_norm_pixel (replicate 4 (1, - 2))
           else batch_norm_pixel [(1, 0)])
      | ReLU \<Rightarrow> relu_pixel
      | _ \<Rightarrow> (\<lambda>v. v))"

section \<open>Augmentation pipeline (experiments/baseline\_fastfcn.py)\<close>

text \<open>
  A training sample is a pair of rank-3 tensors \<open>[height, width, channels]\<close>. A dense
  tensor is its shape together with its element function. The mask is only ever
  moved, copied and rounded, so its values are exact; the values of the image go
  through floating-point kernels (Gaussian blur, bilinear interpolation, the colour
  conversion of scikit-image), which are parameters: they determine values, never
  shapes.
\<close>

record tensor3 =
  rows :: nat
  cols :: nat
  chans :: nat
  elem :: "nat \<Rightarrow> nat \<Rightarrow> nat \<Rightarrow> real"

record float_kernels =
  blur_values :: "tensor3 \<Rightarrow> nat \<Rightarrow> nat \<Rightarrow> nat \<Rightarrow> real"
  bilinear_values :: "nat \<times> nat \<Rightarrow> tensor3 \<Rightarrow> nat \<Rightarrow> nat \<Rightarrow> nat \<Rightarrow> real"
  lab_values :: "tensor3 \<Rightarrow> nat \<Rightarrow> nat \<Rightarrow> nat \<Rightarrow> real"

text \<open>The entries of \<open>self.parameters\<close> that the pipeline reads.\<close>

record augmentation_parameters =
  augmentation_blur_probability :: real
  augmentation_blur_size :: nat
  training_image_size :: "nat \<times> nat"

text \<open>
  One outcome of every random source of \<open>_augment_sample\<close>: the uniform number compared
  with the blur probability, the scaling factor, the coin of the left-right flip, the
  number of rotations, and the three uniform integers that \<open>tf.image.random_crop\<close>
  reduces modulo its limits. The scaling factor is a real number and the scaled size is
  computed exactly; every size that single-precision arithmetic can produce for an
  image of \<open>h\<close> rows is the exact size for some factor (\<open>size / h\<close>), so the draws
  cover it.
\<close>

record random_draws =
  blur_uniform :: real
  scaling_factor :: real
  flip_coin :: bool
  num_rotations :: nat
  crop_uniform :: "nat \<times> nat \<times> nat"

definition binary_tensor :: "tensor3 \<Rightarrow> bool" where
  "binary_tensor t =
     list_all (\<lambda>i. list_all (\<lambda>j. list_all (\<lambda>k. elem t i j k = 0 \<or> elem t i j k = 1)
       [0..<chans t]) [0..<cols t]) [0..<rows t]"

text \<open>
  \<open>_augment_blur\<close>: reflection padding by half the kernel size needs more than that
  many rows and columns, the depthwise convolution has a three-channel kernel, and the
  caller pins the result to the shape of the image.
\<close>

definition augment_blur :: "augmentation_parameters \<Rightarrow> float_kernels \<Rightarrow> tensor3 \<Rightarrow> error + tensor3" where
  "augment_blur params fk img =
     (let kernel_size = augmentation_blur_size params;
          half_kernel_size = kernel_size div 2
      in if rows img \<le> half_kernel_size \<or> cols img \<le> half_kernel_size \<or> chans img = 0
         then Inl InvalidArgumentError
         else if chans img \<noteq> 3 then Inl InvalidArgumentError
         else if rows img + 2 * half_kernel_size + 1 \<noteq> rows img + kernel_size
         then Inl ValueError
         else Inr (img\<lparr>elem := blur_values fk img\<rparr>))"

text \<open>
  \<open>tf.image.resize\<close>: the target size must be positive and the input not empty. With
  \<open>method='nearest'\<close> the output pixel \<open>(y, x)\<close> is the input pixel
  \<open>(min(floor((y + 0.5) * in_height / out_height), in_height - 1), ...)\<close>.
\<close>

definition resize_bilinear :: "float_kernels \<Rightarrow> int \<times> int \<Rightarrow> tensor3 \<Rightarrow> error + tensor3" where
  "resize_bilinear fk new_size img =
     (if fst new_size \<le> 0 \<or> snd new_size \<le> 0 \<or> rows img = 0 \<or> cols img = 0
      then Inl InvalidArgumentError
      else Inr \<lparr>rows = nat (fst new_size), cols = nat (snd new_size), chans = chans img,
                elem = bilinear_values fk (nat (fst new_size), nat (snd new_size)) img\<rparr>)"

definition nearest_index :: "nat \<Rightarrow> nat \<Rightarrow> nat \<Rightarrow> nat" where
  "nearest_index in_size out_size y = min (((2 * y + 1) * in_size) div (2 * out_size)) (in_size - 1)"

definition resize_nearest :: "int \<times> int \<Rightarrow> tensor3 \<Rightarrow> error + tensor3" where
  "resize_nearest new_size img =
     (if fst new_size \<le> 0 \<or> snd new_size \<le> 0 \<or> rows img = 0 \<or> cols img = 0
      then Inl InvalidArgumentError
      else Inr \<lparr>rows = nat (fst new_size), cols = nat (snd new_size), chans = chans img,
                elem = (\<lambda>y x c. elem img (nearest_index (rows img) (nat (fst new_size)) y)
                                         (nearest_index (cols img) (nat (snd new_size)) x) c)\<rparr>)"

definition concat_channels :: "tensor3 \<Rightarrow> tensor3 \<Rightarrow> error + tensor3" where
  "concat_channels a b =
     (if rows a \<noteq> rows b \<or> cols a \<noteq> cols b then Inl InvalidArgumentError
      else Inr \<lparr>rows = rows a, cols = cols a, chans = chans a + chans b,
                elem = (\<lambda>y x c. if c < chans a then elem a y x c else elem b y x (c - chans a))\<rparr>)"

definition flip_left_right :: "tensor3 \<Rightarrow> tensor3" where
  "flip_left_right t = t\<lparr>elem := (\<lambda>y x c. elem t y (cols t - 1 - x) c)\<rparr>"

definition random_flip_left_right :: "bool \<Rightarrow> tensor3 \<Rightarrow> tensor3" where
  "random_flip_left_right coin t = (if coin then flip_left_right t else t)"

text \<open>
  \<open>tf.image.rot90(image, k)\<close> rotates counter-clockwise \<open>k mod 4\<close> times: once is
  \<open>transpose(reverse(image, [1]))\<close>, twice is \<open>reverse(image, [0, 1])\<close>, three times is
  \<open>reverse(transpose(image), [1])\<close>.
\<close>

definition rot90 :: "nat \<Rightarrow> tensor3 \<Rightarrow> tensor3" where
  "rot90 k t =
     (if k mod 4 = 1 then
        \<lparr>rows = cols t, cols = rows t, chans = chans t,
         elem = (\<lambda>y x c. elem t x (cols t - 1 - y) c)\<rparr>
      else if k mod 4 = 2 then
        t\<lparr>elem := (\<lambda>y x c. elem t (rows t - 1 - y) (cols t - 1 - x) c)\<rparr>
      else if k mod 4 = 3 then
        \<lparr>rows = cols t, cols = rows t, chans = chans t,
         elem = (\<lambda>y x c. elem t (rows t - 1 - x) y c)\<rparr>
      else t)"

text \<open>
  \<open>tf.image.random_crop(value, size)\<close> requires \<open>value.shape >= size\<close>, draws the
  offset as a uniform integer modulo \<open>shape - size + 1\<close> and slices.
\<close>

definition random_crop :: "tensor3 \<Rightarrow> nat \<times> nat \<times> nat \<Rightarrow> nat \<times> nat \<times> nat \<Rightarrow> error + tensor3" where
  "random_crop t crop_size uniform =
     (case crop_size of (size_y, size_x, size_c) \<Rightarrow>
      case uniform of (u_y, u_x, u_c) \<Rightarrow>
        if rows t < size_y \<or> cols t < size_x \<or> chans t < size_c then Inl InvalidArgumentError
        else
          let offset_y = u_y mod (rows t - size_y + 1);
              offset_x = u_x mod (cols t - size_x + 1);
              offset_c = u_c mod (chans t - size_c + 1)
          in Inr \<lparr>rows = size_y, cols = size_x, chans = size_c,
                   elem = (\<lambda>y x c. elem t (offset_y + y) (offset_x + x) (offset_c + c))\<rparr>)"

text \<open>The slices \<open>t[:, :, :n]\<close> and \<open>t[:, :, n:]\<close>.\<close>

definition channels_upto :: "nat \<Rightarrow> tensor3 \<Rightarrow> tensor3" where
  "channels_upto n t = t\<lparr>chans := min n (chans t)\<rparr>"

definition channels_from :: "nat \<Rightarrow> tensor3 \<Rightarrow> tensor3" where
  "channels_from n t = t\<lparr>chans := chans t - n, elem := (\<lambda>y x c. elem t y x (n + c))\<rparr>"

definition round_tensor :: "tensor3 \<Rightarrow> tensor3" where
  "round_tensor t = t\<lparr>elem := (\<lambda>y x c. of_int (tf_round (elem t y x c)))\<rparr>"

text \<open>\<open>convert_colorspace\<close>: \<open>rgb2lab\<close> accepts three channels and keeps the shape.\<close>

definition convert_colorspace :: "float_kernels \<Rightarrow> tensor3 \<Rightarrow> error + tensor3" where
  "convert_colorspace fk images =
     (if chans images \<noteq> 3 then Inl ValueError
      else Inr (images\<lparr>elem := lab_values fk images\<rparr>))"

definition augment_sample ::
  "augmentation_parameters \<Rightarrow> float_kernels \<Rightarrow> random_draws \<Rightarrow> tensor3 \<Rightarrow> tensor3 \<Rightarrow>
   error + tensor3 \<times> tensor3" where
  "augment_sample params fk draws img label_mask =
     (let do_blur = blur_uniform draws < augmentation_blur_probability params
      in and_then (if do_blur then augment_blur params fk img else Inr img) (\<lambda>blurred_image.
         let input_height = real (rows blurred_image);
             input_width = real (cols blurred_image);
             scaled_size = (tf_round (input_height * scaling_factor draws),
                            tf_round (input_width * scaling_factor draws))
         in and_then (resize_bilinear fk scaled_size blurred_image) (\<lambda>scaled_image.
            and_then (resize_nearest scaled_size label_mask) (\<lambda>scaled_mask.
            and_then (concat_channels scaled_image scaled_mask) (\<lambda>concatenated_sample.
            let flipped_sample = random_flip_left_right (flip_coin draws) concatenated_sample;
                rotated_sample = rot90 (num_rotations draws) flipped_sample;
                crop_size = (fst (training_image_size params), snd (training_image_size params), 4)
            in and_then (random_crop rotated_sample crop_size (crop_uniform draws)) (\<lambda>cropped_sample.
               let output_image = channels_upto 3 cropped_sample;
                   output_mask_raw = channels_from 3 cropped_sample;
                   output_mask = round_tensor output_mask_raw
               in and_then (convert_colorspace fk output_image) (\<lambda>output_image_lab.
                    Inr (output_image_lab, output_mask))))))))"

text \<open>
  A small sample for the pipeline: a 3x3 image, a 3x3 mask with ones on the diagonal,
  kernels standing for the floating-point operations, and one outcome of the draws
  (blur, no scaling, flip, one rotation), cropped to 2x2.
\<close>

definition example_parameters :: augmentation_parameters where
  "example_parameters =
     \<lparr>augmentation_blur_probability = 1 / 2, augmentation_blur_size = 5,
      training_image_size = (2, 2)\<rparr>"

definition example_kernels :: float_kernels where
  "example_kernels =
     \<lparr>blur_values = (\<lambda>t. elem t),
      bilinear_values = (\<lambda>new_size t y x c. 1 / 3),
      lab_values = (\<lambda>t y x c. elem t y x c / 128)\<rparr>"

definition example_draws :: random_draws where
  "example_draws =
     \<lparr>blur_uniform = 1 / 4, scaling_factor = 1, flip_coin = True, num_rotations = 1,
      crop_uniform = (5, 7, 11)\<rparr>"

definition example_image :: tensor3 where
  "example_image = \<lparr>rows = 3, cols = 3, chans = 3, elem = (\<lambda>y x c. 1 / 2)\<rparr>"

definition example_mask :: tensor3 where
  "example_mask = \<lparr>rows = 3, cols = 3, chans = 1, elem = (\<lambda>y x c. if y = x then 1 else 0)\<rparr>"


section \<open>Colour-space conversion (experiments/baseline\_fastfcn.py)\<close>

text \<open>
  Modelled from the spec: \<open>skimage.color.rgb2lab\<close>, the conversion to the perceptual
  colour space of the specification (lightness and two chroma channels), is library
  code and not part of the sources at hand. It is written here over the real numbers from
  the formulae the library documents for a floating-point RGB image, the D65 illuminant
  and the 2 degree observer: the sRGB companding is undone, the linear values are
  multiplied by the RGB-to-XYZ matrix, the XYZ values are divided by the white point,
  and the CIE function (cube root above \<open>0.008856\<close>, linear below) gives
  \<open>L = 116 f(y) - 16\<close>, \<open>a = 500 (f(x) - f(y))\<close>, \<open>b = 200 (f(y) - f(z))\<close>.
\<close>

definition srgb_to_linear :: "real \<Rightarrow> real" where
  "srgb_to_linear c = (if c > 0.04045 then ((c + 0.055) / 1.055) powr 2.4 else c / 12.92)"

definition rgb2xyz :: "real \<times> real \<times> real \<Rightarrow> real \<times> real \<times> real" where
  "rgb2xyz rgb =
     (case rgb of (r, g, b) \<Rightarrow>
        let r' = srgb_to_linear r; g' = srgb_to_linear g; b' = srgb_to_linear b
        in (0.412453 * r' + 0.357580 * g' + 0.180423 * b',
            0.212671 * r' + 0.715160 * g' + 0.072169 * b',
            0.019334 * r' + 0.119193 * g' + 0.950227 * b'))"

definition xyz_ref_white :: "real \<times> real \<times> real" where
  "xyz_ref_white = (0.95047, 1, 1.08883)"

definition lab_f :: "real \<Rightarrow> real" where
  "lab_f t = (if t > 0.008856 then root 3 t else 7.787 * t + 16 / 116)"

definition xyz2lab :: "real \<times> real \<times> real \<Rightarrow> real \<times> real \<times> real" where
  "xyz2lab xyz =
     (case (xyz, xyz_ref_white) of ((x, y, z), (xn, yn, zn)) \<Rightarrow>
        let fx = lab_f (x / xn); fy = lab_f (y / yn); fz = lab_f (z / zn)
        in (116 * fy - 16, 500 * (fx - fy), 200 * (fy - fz)))"

definition rgb2lab :: "real \<times> real \<times> real \<Rightarrow> real \<times> real \<times> real" where
  "rgb2lab rgb = xyz2lab (rgb2xyz rgb)"

text \<open>
  \<open>convert_colorspace\<close> over the reals: \<open>rgb2lab\<close> on the three channels of every pixel,
  then the division by \<open>(100.0, 128.0, 128.0)\<close>, which broadcasts along the channel axis.
\<close>

definition pixel_at :: "tensor3 \<Rightarrow> nat \<Rightarrow> nat \<Rightarrow> real \<times> real \<times> real" where
  "pixel_at images y x = (elem images y x 0, elem images y x 1, elem images y x 2)"

definition channel_of :: "real \<times> real \<times> real \<Rightarrow> nat \<Rightarrow> real" where
  "channel_of p c = (case p of (p0, p1, p2) \<Rightarrow> if c = 0 then p0 else if c = 1 then p1 else p2)"

definition convert_colorspace_real :: "tensor3 \<Rightarrow> error + tensor3" where
  "convert_colorspace_real images =
     (if chans images \<noteq> 3 then Inl ValueError
      else let images_lab = images\<lparr>elem := (\<lambda>y x. channel_of (rgb2lab (pixel_at images y x)))\<rparr>
           in Inr (images_lab\<lparr>elem := (\<lambda>y x c. elem images_lab y x c / channel_of (100, 128, 128) c)\<rparr>))"

definition example_rgb :: tensor3 where
  "example_rgb = \<lparr>rows = 1, cols = 1, chans = 3, elem = (\<lambda>y x c. 0)\<rparr>"

section \<open>Properties of the floating-point rounding\<close>

lemma and_then_Inr [simp]: "and_then (Inr x) f = f x"
  by (simp add: and_then_def)

lemma and_then_Inl [simp]: "and_then (Inl e) f = Inl e"
  by (simp add: and_then_def)

lemma and_then_eq_Inr:
  "and_then r f = Inr y \<longleftrightarrow> (\<exists>x. r = Inr x \<and> f x = Inr y)"
  by (cases r) (simp_all add: and_then_def)

lemma tf_round_of_int [simp]: "tf_round (of_int m) = m"
  by (simp add: tf_round_def)

lemma tf_round_numeral [simp]:
  "tf_round (numeral n) = numeral n" "tf_round (- numeral n) = - numeral n"
  using tf_round_of_int [of "numeral n"] tf_round_of_int [of "- numeral n"] by simp_all

lemma bit_length_le: "n < 2 ^ p \<Longrightarrow> bit_length n \<le> p"
proof (induction p arbitrary: n)
  case 0
  then show ?case by (simp add: bit_length.simps)
next
  case (Suc p)
  show ?case
  proof (cases "n = 0")
    case True
    then show ?thesis by (simp add: bit_length.simps)
  next
    case False
    from Suc.prems have "n div 2 < 2 ^ p" by simp
    from Suc.IH [OF this] False show ?thesis
      by (subst bit_length.simps) simp
  qed
qed

lemma bit_length_eq:
  "2 ^ p \<le> n \<Longrightarrow> n < 2 ^ Suc p \<Longrightarrow> bit_length n = Suc p"
proof (induction p arbitrary: n)
  case 0
  then have "n = 1" by simp
  then show ?case by (simp add: bit_length.simps [of "Suc 0"] bit_length.simps [of 0])
next
  case (Suc p)
  then have "2 ^ p \<le> n div 2" "n div 2 < 2 ^ Suc p" "n \<noteq> 0" by auto
  from Suc.IH [OF this(1,2)] this(3) show ?case
    by (subst bit_length.simps) simp
qed

lemma round_to_bits_exact: "\<bar>m\<bar> < 2 ^ p \<Longrightarrow> round_to_bits p m = m"
proof -
  assume "\<bar>m\<bar> < 2 ^ p"
  then have "nat \<bar>m\<bar> < 2 ^ p"
    by (metis nat_less_iff abs_ge_zero of_nat_numeral of_nat_power)
  from bit_length_le [OF this] show ?thesis
    by (simp add: round_to_bits_def)
qed

lemma round_to_bits_24_boundary:
  "round_to_bits 24 16777216 = 16777216" "round_to_bits 24 (- 16777216) = - 16777216"
proof -
  have b: "bit_length 16777216 = 25"
    using bit_length_eq [of 24 16777216] by simp
  show "round_to_bits 24 16777216 = 16777216"
    by (simp add: round_to_bits_def b)
  show "round_to_bits 24 (- 16777216) = - 16777216"
    by (simp add: round_to_bits_def b)
qed

lemma ceil_half_exact:
  assumes "\<bar>m\<bar> \<le> 2 ^ 24"
  shows "ceil_half m = (m + 1) div 2"
proof -
  have "\<bar>m\<bar> < 2 ^ 53" using assms by simp
  then have r53: "round_to_bits 53 m = m" by (rule round_to_bits_exact)
  have r24: "round_to_bits 24 m = m"
  proof (cases "\<bar>m\<bar> < 2 ^ 24")
    case True
    then show ?thesis by (rule round_to_bits_exact)
  next
    case False
    with assms have "m = 16777216 \<or> m = - 16777216" by auto
    then show ?thesis using round_to_bits_24_boundary by auto
  qed
  have "real_of_int m / 2 = real_of_int m / real_of_int 2" by simp
  then have "\<lceil>real_of_int m / 2\<rceil> = - ((- m) div 2)"
    unfolding ceiling_def
    by (metis floor_divide_of_int_eq minus_divide_left of_int_minus)
  then show ?thesis unfolding ceil_half_def r53 r24 by linarith
qed


section \<open>Properties of the stride padding\<close>

lemma stride_reaches_multiple:
  "(d + (s - d mod s)) mod s = (0::int)"
proof -
  have "d + (s - d mod s) = s + (d - d mod s)" by simp
  also have "\<dots> mod s = (d - d mod s) mod s" by (simp del: minus_mod_eq_mult_div)
  also have "\<dots> = 0" by (simp add: minus_mod_eq_mult_div)
  finally show ?thesis .
qed

lemma missing_bounds: "0 < s \<Longrightarrow> 0 < s - d mod s \<and> s - d mod s \<le> s" for s d :: int
  using pos_mod_bound [of s d] pos_mod_sign [of s d] by linarith

lemma half_split: "\<bar>m\<bar> \<le> 2 ^ 24 \<Longrightarrow> m div 2 + ceil_half m = m"
  using ceil_half_exact [of m] by linarith

lemma half_nonneg:
  "0 < m \<Longrightarrow> m \<le> 2 ^ 24 \<Longrightarrow> 0 \<le> m div 2 \<and> 0 \<le> ceil_half m \<and> m div 2 \<le> ceil_half m"
  using ceil_half_exact [of m] by linarith

lemma missing_half:
  assumes "0 < s" and "s \<le> 2 ^ 24"
  shows "(s - d mod s) div 2 + ceil_half (s - d mod s) = s - d mod s"
    and "0 \<le> (s - d mod s) div 2" and "0 \<le> ceil_half (s - d mod s)"
    and "ceil_half (s - d mod s) = (s - d mod s + 1) div 2"
proof -
  from missing_bounds [OF assms(1), of d] assms(2)
  have b: "0 < s - d mod s" "s - d mod s \<le> 2 ^ 24" "\<bar>s - d mod s\<bar> \<le> 2 ^ 24" by simp_all
  show "(s - d mod s) div 2 + ceil_half (s - d mod s) = s - d mod s"
    by (rule half_split [OF b(3)])
  show "0 \<le> (s - d mod s) div 2" "0 \<le> ceil_half (s - d mod s)"
    using half_nonneg [OF b(1,2)] by simp_all
  show "ceil_half (s - d mod s) = (s - d mod s + 1) div 2"
    by (rule ceil_half_exact [OF b(3)])
qed

lemma tf_pad_dim_zero:
  "tf_pad_dim mode d (0, 0) = Inr d' \<Longrightarrow> d' = d"
  by (auto simp: tf_pad_dim_def split: if_splits)

lemma tf_pad_dim_Inr:
  "tf_pad_dim mode d (b, a) = Inr d' \<Longrightarrow> d' = b + d + a"
  by (auto simp: tf_pad_dim_def split: if_splits)

text \<open>Whenever the padding returns, for a stride up to \<open>2^24\<close>, the result is the input
  grown to \<open>dim + (s - dim mod s)\<close> in both spatial dimensions.\<close>

lemma pad_to_stride_Inr:
  assumes "pad_to_stride inputs s mode = Inr out" and "0 < s" and "s \<le> 2 ^ 24"
  shows "batch out = batch inputs \<and> channels out = channels inputs
       \<and> height out = height inputs + (s - height inputs mod s)
       \<and> width out = width inputs + (s - width inputs mod s)"
proof -
  from assms(2) have nz: "s \<noteq> 0" by simp
  from assms(1) nz obtain b h w c where
    b: "tf_pad_dim mode (batch inputs) (0, 0) = Inr b" and
    h: "tf_pad_dim mode (height inputs)
          ((s - height inputs mod s) div 2, ceil_half (s - height inputs mod s)) = Inr h" and
    w: "tf_pad_dim mode (width inputs)
          ((s - width inputs mod s) div 2, ceil_half (s - width inputs mod s)) = Inr w" and
    c: "tf_pad_dim mode (channels inputs) (0, 0) = Inr c" and
    out: "out = \<lparr>batch = b, height = h, width = w, channels = c\<rparr>"
    by (auto simp: pad_to_stride_def pad_to_stride_paddings_def tf_pad_def Let_def
        and_then_eq_Inr)
  from tf_pad_dim_zero [OF b] tf_pad_dim_zero [OF c] tf_pad_dim_Inr [OF h] tf_pad_dim_Inr [OF w]
  show ?thesis
    using out missing_half(1) [OF assms(2,3), of "height inputs"]
      missing_half(1) [OF assms(2,3), of "width inputs"] by simp
qed

lemma pad_to_stride_accepts:
  assumes s: "0 < s" "s \<le> 2 ^ 24"
    and r: "mode = REFLECT \<Longrightarrow>
              0 < batch inputs \<and> 0 < channels inputs
            \<and> ceil_half (s - height inputs mod s) < height inputs
            \<and> ceil_half (s - width inputs mod s) < width inputs"
    and y: "mode = SYMMETRIC \<Longrightarrow>
              0 \<le> batch inputs \<and> 0 \<le> channels inputs
            \<and> ceil_half (s - height inputs mod s) \<le> height inputs
            \<and> ceil_half (s - width inputs mod s) \<le> width inputs"
  shows "\<exists>out. pad_to_stride inputs s mode = Inr out"
proof -
  have py: "0 < s - height inputs mod s" "s - height inputs mod s \<le> 2 ^ 24"
    and px: "0 < s - width inputs mod s" "s - width inputs mod s \<le> 2 ^ 24"
    using s missing_bounds [of s "height inputs"] missing_bounds [of s "width inputs"]
    by linarith+
  note hy = half_nonneg [OF py] and hx = half_nonneg [OF px]
  show ?thesis
  proof (cases mode)
    case CONSTANT
    then show ?thesis using s hy hx
      by (simp add: pad_to_stride_def pad_to_stride_paddings_def tf_pad_def tf_pad_dim_def Let_def)
  next
    case REFLECT
    with r s hy hx show ?thesis
      by (simp add: pad_to_stride_def pad_to_stride_paddings_def tf_pad_def tf_pad_dim_def Let_def)
  next
    case SYMMETRIC
    with y s hy hx show ?thesis
      by (simp add: pad_to_stride_def pad_to_stride_paddings_def tf_pad_def tf_pad_dim_def Let_def)
  qed
qed

text \<open>
  On a dimension that is already a multiple of the stride nothing is missing, yet the
  computed total is a whole stride: \<open>s - (d % s) = s\<close>.
\<close>

lemma pad_to_stride_aligned_total:
  assumes "s \<noteq> 0" and "s dvd height inputs" and "s dvd width inputs"
  shows "pad_to_stride_paddings inputs s
           = Inr ((0, 0), (s div 2, ceil_half s), (s div 2, ceil_half s), (0, 0))"
  using assms by (simp add: pad_to_stride_paddings_def Let_def)

text \<open>
  Claim C1. For an image batch whose height and width are already multiples of the
  target stride, \<open>pad_to_stride\<close> is claimed to return the input unchanged. The
  function does not: on a \<open>[1, 32, 32, 3]\<close> batch with stride 32 it pads 16 pixels on
  every side and returns a \<open>[1, 64, 64, 3]\<close> batch.
\<close>

theorem pad_to_stride_aligned_input_grows:
  "pad_to_stride \<lparr>batch = 1, height = 32, width = 32, channels = 3\<rparr> 32 REFLECT
     = Inr \<lparr>batch = 1, height = 64, width = 64, channels = 3\<rparr>"
  by (simp add: pad_to_stride_def pad_to_stride_paddings_def tf_pad_def tf_pad_dim_def
      ceil_half_exact Let_def)








text \<open>
  Claim C10 as the specification states it: for every input of positive height and width
  and every positive stride the output has height and width that are multiples of the
  stride. With the default reflection mode a \<open>[1, 1, 1, 3]\<close> batch and stride 32 give
  paddings \<open>(15, 16)\<close> on dimensions of extent 1, which \<open>tf.pad\<close> rejects: there is no
  output.
\<close>

theorem pad_to_stride_small_input_rejected:
  "pad_to_stride \<lparr>batch = 1, height = 1, width = 1, channels = 3\<rparr> 32 REFLECT
     = Inl InvalidArgumentError"
  by (simp add: pad_to_stride_def pad_to_stride_paddings_def tf_pad_def tf_pad_dim_def
      ceil_half_exact Let_def)

text \<open>
  Claim C10, amended. For every input of positive height and width and every positive
  target stride \<open>s\<close> up to \<open>2^24\<close> whose paddings the padding mode admits (always in
  constant mode; in reflection mode when batch and channel extents are positive and
  \<open>ceil((s - dim mod s) / 2)\<close> is below the extent of each spatial dimension; in
  symmetric mode when it does not exceed it), \<open>pad_to_stride\<close> returns a tensor whose
  height and width are multiples of \<open>s\<close> and whose batch and channel extents are those
  of the input.
\<close>

theorem pad_to_stride_output_shape:
  assumes "0 < target_stride" and "target_stride \<le> 2 ^ 24"
    and "0 < height inputs" and "0 < width inputs"
    and "mode = REFLECT \<Longrightarrow>
              0 < batch inputs \<and> 0 < channels inputs
            \<and> ceil_half (target_stride - height inputs mod target_stride) < height inputs
            \<and> ceil_half (target_stride - width inputs mod target_stride) < width inputs"
    and "mode = SYMMETRIC \<Longrightarrow>
              0 \<le> batch inputs \<and> 0 \<le> channels inputs
            \<and> ceil_half (target_stride - height inputs mod target_stride) \<le> height inputs
            \<and> ceil_half (target_stride - width inputs mod target_stride) \<le> width inputs"
  shows "\<exists>out. pad_to_stride inputs target_stride mode = Inr out
             \<and> target_stride dvd height out \<and> target_stride dvd width out
             \<and> batch out = batch inputs \<and> channels out = channels inputs"
proof -
  from pad_to_stride_accepts [OF assms(1,2) assms(5) assms(6)]
  obtain out where out: "pad_to_stride inputs target_stride mode = Inr out" by blast
  from pad_to_stride_Inr [OF out assms(1,2)] show ?thesis
    using out stride_reaches_multiple [of "height inputs" target_stride]
      stride_reaches_multiple [of "width inputs" target_stride]
    by (auto simp: dvd_eq_mod_eq_0)
qed

theorem pad_to_stride_output_shape_witness:
  "(0::int) < 32 \<and> (32::int) \<le> 2 ^ 24
   \<and> ceil_half (32 - 400 mod 32) < 400 \<and> ceil_half (32 - 608 mod 32) < 608
   \<and> (\<exists>out. pad_to_stride \<lparr>batch = 2, height = 400, width = 608, channels = 3\<rparr> 32 REFLECT = Inr out
          \<and> 32 dvd height out \<and> 32 dvd width out \<and> batch out = 2 \<and> channels out = 3)"
  using pad_to_stride_output_shape
    [of 32 "\<lparr>batch = 2, height = 400, width = 608, channels = 3\<rparr>" REFLECT]
  by (simp add: ceil_half_exact)

section \<open>Properties of the layers\<close>

lemma new_layer_valid: "layer_valid l \<Longrightarrow> new_layer apply self l = Inr (apply self l)"
  by (simp add: new_layer_def)

lemma new_layer_invalid: "\<not> layer_valid l \<Longrightarrow> new_layer apply self l = Inl ValueError"
  by (simp add: new_layer_def)

lemma new_layer_simple [simp]:
  "new_layer apply self BatchNormalization = Inr (apply self BatchNormalization)"
  "new_layer apply self ReLU = Inr (apply self ReLU)"
  by (simp_all add: new_layer_def)

lemma conv_output_length_same_unit [simp]:
  "conv_output_length n k Same 1 d = n"
  by (simp add: conv_output_length_def)

lemma conv_output_length_valid_unit [simp]:
  "conv_output_length n 1 Valid 1 1 = n"
  by (simp add: conv_output_length_def)

lemma conv_output_length_same_two [simp]:
  "conv_output_length n k Same 2 1 = (n + 1) div 2"
  by (simp add: conv_output_length_def)

section \<open>Properties of the JPU module\<close>

lemma JPUInputBlock_Inr:
  "0 < F \<Longrightarrow> JPUInputBlock apply self F
     = Inr (spec_normalised_rectified apply self (Conv2D F 3 (1, 1) Same False))"
  by (simp add: JPUInputBlock_def new_layer_valid spec_normalised_rectified_def fun_eq_iff)

lemma JPUSeparableBlock_Inr:
  "0 < F \<Longrightarrow> 0 < d \<Longrightarrow> JPUSeparableBlock apply self F d
     = Inr (spec_normalised_rectified apply self (SeparableConv2D F 3 Same d))"
  by (simp add: JPUSeparableBlock_def new_layer_valid spec_normalised_rectified_def fun_eq_iff)

lemma JPUInputBlock_rejects: "F \<le> 0 \<Longrightarrow> JPUInputBlock apply self F = Inl ValueError"
  by (simp add: JPUInputBlock_def new_layer_invalid)

lemma JPUModule_rejects: "F \<le> 0 \<Longrightarrow> JPUModule apply concatenate self F = Inl ValueError"
  by (simp add: JPUModule_def JPUInputBlock_rejects)

lemma JPUModule_call_spec:
  assumes "0 < F"
  shows "build_and_call (JPUModule apply concatenate self F) [s8, s16, s32]
           = spec_jpu apply concatenate self F s8 s16 s32"
  using assms
  by (simp add: build_and_call_def JPUModule_def JPUInputBlock_Inr JPUSeparableBlock_Inr
      new_layer_valid JPUModule_DILATION_RATES_def JPUModule_INTERPOLATION_def spec_jpu_def
      eval_nat_numeral)

lemma spec_normalised_rectified_shape [simp]:
  "spec_normalised_rectified shape_layers self (Conv2D F 3 (1, 1) Same False) x
     = \<lparr>batch = batch x, height = height x, width = width x, channels = F\<rparr>"
  "spec_normalised_rectified shape_layers self (SeparableConv2D F 3 Same d) x
     = \<lparr>batch = batch x, height = height x, width = width x, channels = F\<rparr>"
  by (simp_all add: spec_normalised_rectified_def shape_layers_def)

lemma JPUModule_call_shape:
  assumes "0 < F"
    and "batch s16 = batch s8" and "batch s32 = batch s8"
    and "height s8 = 2 * height s16" and "width s8 = 2 * width s16"
    and "height s8 = 4 * height s32" and "width s8 = 4 * width s32"
  shows "build_and_call (JPUModule shape_layers tf_concat self F) [s8, s16, s32]
           = Inr \<lparr>batch = batch s8, height = height s8, width = width s8, channels = 4 * F\<rparr>"
  using assms
  by (simp add: JPUModule_call_spec spec_jpu_def shape_layers_def tf_concat_def)

text \<open>
  Claim C5. A JPU module of channel width \<open>F > 0\<close> can be built, and on three feature
  maps it computes what the specification describes, whatever the layers compute: each
  map goes through a 3x3 convolution to \<open>F\<close> channels, normalisation and rectification;
  the stride-16 result is upsampled by 2 and the stride-32 result by 4; the three are
  concatenated along the channel axis; the concatenation goes through four separable
  convolutions with dilation rates 1, 2, 4 and 8, each normalised and rectified; and the
  four results are concatenated. On feature maps of spatial sizes 32x32, 16x16 and 8x8
  (any batch size and channel counts) the output has spatial size 32x32 and \<open>4 * F\<close>
  channels.
\<close>

theorem JPUModule_output_shape:
  assumes "0 < F"
  shows "build_and_call (JPUModule apply concatenate self F) [s8, s16, s32]
           = spec_jpu apply concatenate self F s8 s16 s32
         \<and> build_and_call (JPUModule shape_layers tf_concat self F)
             [\<lparr>batch = n, height = 32, width = 32, channels = c8\<rparr>,
              \<lparr>batch = n, height = 16, width = 16, channels = c16\<rparr>,
              \<lparr>batch = n, height = 8, width = 8, channels = c32\<rparr>]
           = Inr \<lparr>batch = n, height = 32, width = 32, channels = 4 * F\<rparr>"
proof (rule conjI)
  show "build_and_call (JPUModule apply concatenate self F) [s8, s16, s32]
          = spec_jpu apply concatenate self F s8 s16 s32"
    using assms by (rule JPUModule_call_spec)
  show "build_and_call (JPUModule shape_layers tf_concat self F)
          [\<lparr>batch = n, height = 32, width = 32, channels = c8\<rparr>,
           \<lparr>batch = n, height = 16, width = 16, channels = c16\<rparr>,
           \<lparr>batch = n, height = 8, width = 8, channels = c32\<rparr>]
        = Inr \<lparr>batch = n, height = 32, width = 32, channels = 4 * F\<rparr>"
    using assms by (simp add: JPUModule_call_shape)
qed

theorem JPUModule_output_shape_witness:
  "(0::int) < 512
   \<and> build_and_call (JPUModule shape_layers tf_concat [Attr ''upsampling''] 512)
       [\<lparr>batch = 1, height = 32, width = 32, channels = 512\<rparr>,
        \<lparr>batch = 1, height = 16, width = 16, channels = 1024\<rparr>,
        \<lparr>batch = 1, height = 8, width = 8, channels = 2048\<rparr>]
     = Inr \<lparr>batch = 1, height = 32, width = 32, channels = 2048\<rparr>"
  using JPUModule_output_shape [of 512 shape_layers tf_concat "[Attr ''upsampling'']" _ _ _
      1 512 1024 2048, THEN conjunct2]
  by simp

section \<open>The ResNet backbone of this revision\<close>

lemma ResNetBackbone_call_None:
  "blocks \<noteq> [] \<Longrightarrow> ResNetBackbone_call blocks inputs = None"
proof -
  have fold_None: "fold (\<lambda>current_layer features. current_layer features)
          (map (\<lambda>(idx, current_blocks). ResNetLayer_call current_blocks (f idx) (g idx)) ps) None = None"
    for f g and ps :: "(nat \<times> int) list"
    by (induction ps) (auto simp: ResNetLayer_call_def)
  assume "blocks \<noteq> []"
  then obtain b bs where "blocks = b # bs" by (cases blocks) auto
  then show ?thesis
    by (simp add: ResNetBackbone_call_def ResNetBackbone_residual_layers_def Let_def
        ResNetLayer_call_def fold_None)
qed

text \<open>
  Claim C3. For a batch of shape \<open>[N, 256, 256, 3]\<close> the ResNet backbone is claimed to
  return three feature maps of 32x32, 16x16 and 8x8. The backbone of this revision
  computes the stride-4 stem (a \<open>[1, 64, 64, 64]\<close> tensor for a \<open>[1, 256, 256, 3]\<close>
  input) and feeds it to residual layers whose \<open>call\<close> is an empty body; what it
  returns is the single value of the last layer, \<open>None\<close>, not three feature maps.
\<close>

theorem ResNetBackbone_returns_None:
  "ResNetBackbone_call ResNet50Backbone_blocks \<lparr>batch = 1, height = 256, width = 256, channels = 3\<rparr>
     = None
   \<and> ResNetBackbone_stem \<lparr>batch = 1, height = 256, width = 256, channels = 3\<rparr>
     = \<lparr>batch = 1, height = 64, width = 64, channels = 64\<rparr>"
  by (simp add: ResNetBackbone_call_None ResNet50Backbone_blocks_def ResNetBackbone_stem_def
      conv_output_length_def ResNetBackbone_INITIAL_FILTERS_def)

section \<open>Properties of the bottleneck block\<close>

lemma BottleneckBlock_init_rejects:
  "filters_in \<le> 0 \<Longrightarrow> BottleneckBlock_init apply self filters_in downsample = Inl ValueError"
  by (simp add: BottleneckBlock_init_def new_layer_invalid)

lemma BottleneckBlock_init_Inr:
  assumes "0 < filters_in"
  shows "BottleneckBlock_init apply self filters_in downsample =
           Inr \<lparr>conv_in = apply (self @ [Attr ''conv_in''])
                            (Conv2D filters_in 1 (if downsample then (2, 2) else (1, 1)) Same True),
                batch_norm_in = apply (self @ [Attr ''batch_norm_in'']) BatchNormalization,
                activation_in = apply (self @ [Attr ''activation_in'']) ReLU,
                conv_middle = apply (self @ [Attr ''conv_middle''])
                                (Conv2D filters_in 3 (1, 1) Same True),
                batch_norm_middle = apply (self @ [Attr ''batch_norm_middle'']) BatchNormalization,
                activation_middle = apply (self @ [Attr ''activation_middle'']) ReLU,
                conv_out = apply (self @ [Attr ''conv_out''])
                             (Conv2D (4 * filters_in) 1 (1, 1) Same True),
                batch_norm_out = apply (self @ [Attr ''batch_norm_out'']) BatchNormalization\<rparr>"
  using assms by (simp add: BottleneckBlock_init_def new_layer_valid)

text \<open>
  Claim C2 as the specification states it: the output of a bottleneck block is the
  rectified sum of its main branch and a shortcut of its input. \<open>BottleneckBlock.call\<close>
  returns the output of the last normalisation: for the example block, whose output
  normalisation has offset \<open>-2\<close>, on the pixel \<open>[1]\<close> the code returns negative values,
  where the rectified sum with the shortcut is \<open>[0, 0, 0, 0]\<close>.
\<close>

theorem BottleneckBlock_output_not_rectified:
  "BottleneckBlock_call example_block [1] = [- 1, - 1, - 1, - 1]
   \<and> spec_bottleneck relu_pixel add_pixel example_block example_shortcut [1] = [0, 0, 0, 0]"
  by (simp add: BottleneckBlock_call_def spec_bottleneck_def spec_main_branch_def
      example_block_def example_shortcut_def conv_pixel_def batch_norm_pixel_def relu_pixel_def
      add_pixel_def)

text \<open>
  Claim C2, amended. A bottleneck block of width \<open>filters_in > 0\<close> can be built, and
  for every input and whatever the layers compute, its \<open>call\<close> is the main branch alone:
  1x1 convolution to \<open>filters_in\<close> channels (stride 2 only if the block downsamples),
  normalisation, rectification, 3x3 convolution, normalisation, rectification, 1x1
  convolution to \<open>4 * filters_in\<close> channels, normalisation; the output of that last
  normalisation is returned as it is. On shapes, the output has \<open>4 * filters_in\<close>
  channels and the extent of the input, halved (rounding up) if the block downsamples.
\<close>

theorem BottleneckBlock_call_main_branch:
  assumes "0 < filters_in"
  shows "(\<exists>block. BottleneckBlock_init apply self filters_in downsample = Inr block
            \<and> BottleneckBlock_call block inputs
                = run_layers apply self (spec_main_layers filters_in downsample) inputs)
       \<and> (\<exists>block. BottleneckBlock_init shape_layers self filters_in downsample = Inr block
            \<and> BottleneckBlock_call block x
                = \<lparr>batch = batch x,
                   height = (if downsample then (height x + 1) div 2 else height x),
                   width = (if downsample then (width x + 1) div 2 else width x),
                   channels = 4 * filters_in\<rparr>)"
  using assms
  by (simp add: BottleneckBlock_init_Inr BottleneckBlock_call_def run_layers_def
      spec_main_layers_def shape_layers_def)

theorem BottleneckBlock_call_main_branch_witness:
  "(0::int) < 64
   \<and> (\<exists>block. BottleneckBlock_init example_layers [] 1 False = Inr block
          \<and> BottleneckBlock_call block [1] = [- 1, - 1, - 1, - 1])
   \<and> (\<exists>block. BottleneckBlock_init shape_layers [] 64 True = Inr block
          \<and> BottleneckBlock_call block \<lparr>batch = 1, height = 65, width = 64, channels = 64\<rparr>
              = \<lparr>batch = 1, height = 33, width = 32, channels = 256\<rparr>)"
proof -
  have run: "run_layers example_layers [] (spec_main_layers 1 False) [1] = [- 1, - 1, - 1, - 1]"
    by (simp add: run_layers_def spec_main_layers_def example_layers_def conv_pixel_def
        batch_norm_pixel_def relu_pixel_def eval_nat_numeral)
  show ?thesis
    using BottleneckBlock_call_main_branch [of 1 example_layers "[]" False "[1]", THEN conjunct1]
      BottleneckBlock_call_main_branch
        [of 64 _ "[]" True _ "\<lparr>batch = 1, height = 65, width = 64, channels = 64\<rparr>",
         THEN conjunct2]
    by (simp add: run)
qed

lemma example_block_constructed:
  "BottleneckBlock_init example_layers [] 1 False = Inr example_block"
  by (simp add: BottleneckBlock_init_Inr example_layers_def example_block_def eval_nat_numeral)

section \<open>Properties of the full models\<close>

lemma reflect_admissible_32:
  "12 \<le> d \<Longrightarrow> ceil_half (32 - d mod 32) < d" for d :: int
proof -
  assume d: "12 \<le> d"
  define m where "m = d mod 32"
  have b: "0 \<le> m" "m < 32" by (simp_all add: m_def)
  have small: "m = d" if "d < 32" using that d by (simp add: m_def)
  have "(32 - m + 1) div 2 < d"
  proof (cases "d < 32")
    case True
    with small d show ?thesis by simp
  next
    case False
    have "(32 - m + 1) div 2 \<le> 16" using b by simp
    with False show ?thesis by simp
  qed
  moreover have "ceil_half (32 - m) = (32 - m + 1) div 2"
    using b by (intro ceil_half_exact) simp
  ultimately show ?thesis by (simp add: m_def)
qed

lemma padded_extent_32:
  fixes d :: int
  assumes "0 \<le> d"
  shows "32 dvd d + (32 - d mod 32) \<and> 0 < d + (32 - d mod 32)"
proof -
  have "(d + (32 - d mod 32)) mod 32 = 0" by (rule stride_reaches_multiple)
  then have "32 dvd d + (32 - d mod 32)" by (simp only: dvd_eq_mod_eq_0)
  moreover have "d mod 32 < 32" by simp
  then have "0 < d + (32 - d mod 32)" using assms by linarith
  ultimately show ?thesis by simp
qed

lemma pad_to_stride_32_reflect:
  assumes "0 < batch inputs" and "0 < channels inputs"
    and "12 \<le> height inputs" and "12 \<le> width inputs"
  shows "\<exists>padded. pad_to_stride inputs 32 REFLECT = Inr padded
           \<and> batch padded = batch inputs \<and> channels padded = channels inputs
           \<and> 32 dvd height padded \<and> 32 dvd width padded
           \<and> 0 < height padded \<and> 0 < width padded"
proof -
  have "\<exists>out. pad_to_stride inputs 32 REFLECT = Inr out"
  proof (rule pad_to_stride_accepts)
    show "(0::int) < 32" by simp
    show "(32::int) \<le> 2 ^ 24" by simp
    show "0 < batch inputs \<and> 0 < channels inputs
            \<and> ceil_half (32 - height inputs mod 32) < height inputs
            \<and> ceil_half (32 - width inputs mod 32) < width inputs"
      using assms reflect_admissible_32 by simp
    show "0 \<le> batch inputs \<and> 0 \<le> channels inputs
            \<and> ceil_half (32 - height inputs mod 32) \<le> height inputs
            \<and> ceil_half (32 - width inputs mod 32) \<le> width inputs"
      if "REFLECT = SYMMETRIC" using that by simp
  qed
  then obtain out where out: "pad_to_stride inputs 32 REFLECT = Inr out" by blast
  have h: "0 \<le> height inputs" and w: "0 \<le> width inputs" using assms by simp_all
  have s: "(0::int) < 32" "(32::int) \<le> 2 ^ 24" by simp_all
  from pad_to_stride_Inr [OF out s] padded_extent_32 [OF h] padded_extent_32 [OF w]
  have "batch out = batch inputs \<and> channels out = channels inputs
           \<and> 32 dvd height out \<and> 32 dvd width out
           \<and> 0 < height out \<and> 0 < width out"
    by simp
  with out show ?thesis by blast
qed

lemma last_three_three [simp]: "last_three [a, b, c] = [a, b, c]"
  by (simp add: last_three_def)

lemma JPUModule_Inr:
  assumes "0 < F"
  shows "\<exists>upsampling. JPUModule apply concatenate self F = Inr upsampling
           \<and> (\<forall>s8 s16 s32. upsampling [s8, s16, s32]
                  = spec_jpu apply concatenate self F s8 s16 s32)"
proof -
  have "\<exists>upsampling. JPUModule apply concatenate self F = Inr upsampling"
    using assms
    by (simp add: JPUModule_def JPUInputBlock_Inr JPUSeparableBlock_Inr new_layer_valid
        JPUModule_DILATION_RATES_def)
  then obtain upsampling where up: "JPUModule apply concatenate self F = Inr upsampling"
    by blast
  have "upsampling [s8, s16, s32] = spec_jpu apply concatenate self F s8 s16 s32"
    for s8 s16 s32
    using JPUModule_call_spec [OF assms, of "apply" concatenate self s8 s16 s32]
    by (simp add: build_and_call_def up)
  with up show ?thesis by blast
qed

lemma strided_features_JPU:
  assumes "0 < F"
    and "strided_features padded fs" and "32 dvd height padded" and "32 dvd width padded"
  shows "spec_jpu shape_layers tf_concat self F (fs ! 0) (fs ! 1) (fs ! 2)
           = Inr \<lparr>batch = batch padded, height = height padded div 8,
                  width = width padded div 8, channels = 4 * F\<rparr>
         \<and> fs = [fs ! 0, fs ! 1, fs ! 2]"
proof -
  from assms(2) obtain s8 s16 s32 where fs: "fs = [s8, s16, s32]"
    and b: "batch s8 = batch padded" "batch s16 = batch padded" "batch s32 = batch padded"
    and h: "height s8 = height padded div 8" "height s16 = height padded div 16"
           "height s32 = height padded div 32"
    and w: "width s8 = width padded div 8" "width s16 = width padded div 16"
           "width s32 = width padded div 32"
    by (auto simp: strided_features_def split: list.splits)
  have d: "32 dvd x \<Longrightarrow> x div 8 = 2 * (x div 16) \<and> x div 8 = 4 * (x div 32)" for x :: int
    by (elim dvdE) simp
  have "build_and_call (JPUModule shape_layers tf_concat self F) [s8, s16, s32]
          = Inr \<lparr>batch = batch s8, height = height s8, width = width s8, channels = 4 * F\<rparr>"
    using d [OF assms(3)] d [OF assms(4)] b h w assms(1)
    by (intro JPUModule_call_shape) simp_all
  then show ?thesis
    using JPUModule_call_spec [OF assms(1), of shape_layers tf_concat self s8 s16 s32]
    by (simp add: fs b h w)
qed

lemma FCNHeadNoContext_Inr:
  assumes "0 < k" and "0 \<le> rate" and "rate \<le> 1"
  shows "FCNHeadNoContext shape_layers self k rate
           = Inr (\<lambda>x. \<lparr>batch = batch x, height = height x, width = width x, channels = 1\<rparr>)"
  using assms
  by (simp add: FCNHeadNoContext_def new_layer_valid shape_layers_def fun_eq_iff)

lemma FCNHead_Inr:
  assumes "0 < k" and "0 \<le> rate" and "rate \<le> 1"
  shows "FCNHead shape_layers self k rate
           = Inr (\<lambda>x. \<lparr>batch = batch x, height = height x, width = width x, channels = 1\<rparr>)"
  using assms
  by (simp add: FCNHead_def new_layer_valid shape_layers_def fun_eq_iff)

lemma EncoderHead_Inr:
  assumes "0 < k" and "0 \<le> rate" and "rate \<le> 1" and "encoder_contract encoder"
  shows "\<exists>head. EncoderHead shape_layers encoder self k rate = Inr head
           \<and> (\<forall>x. \<exists>l. head x
                  = Inr (\<lparr>batch = batch x, height = height x, width = width x, channels = 1\<rparr>, l))"
proof -
  let ?head = "\<lambda>inputs. and_then
       (encoder \<lparr>batch = batch inputs, height = height inputs, width = width inputs, channels = k\<rparr>)
       (\<lambda>(weighted_features, se_loss_features).
           Inr (\<lparr>batch = batch weighted_features, height = height weighted_features,
                  width = width weighted_features, channels = 1\<rparr>, se_loss_features))"
  have "EncoderHead shape_layers encoder self k rate = Inr ?head"
    using assms(1-3)
    by (simp add: EncoderHead_def new_layer_valid shape_layers_def fun_eq_iff)
  moreover have "\<exists>l. ?head x
           = Inr (\<lparr>batch = batch x, height = height x, width = width x, channels = 1\<rparr>, l)" for x
  proof -
    let ?c = "\<lparr>batch = batch x, height = height x, width = width x, channels = k\<rparr>"
    from assms(4) obtain l where "encoder ?c = Inr (?c, l)"
      unfolding encoder_contract_def by blast
    then show ?thesis by simp
  qed
  ultimately show ?thesis by blast
qed

lemma multiple_of_32_div_8_pos: "32 dvd x \<Longrightarrow> 0 < x \<Longrightarrow> 0 < x div 8" for x :: int
  by (elim dvdE) simp

lemma FastFCNNoContext_call_shape:
  assumes pad: "pad_to_stride inputs 32 REFLECT = Inr padded"
    and mult: "32 dvd height padded" "32 dvd width padded"
    and pos: "0 < height padded" "0 < width padded"
    and bc: "backbone_contract backbone"
    and big: "8 \<le> height inputs" "8 \<le> width inputs"
    and F: "0 < F" and rate: "0 \<le> rate" "rate \<le> 1"
  shows "build_and_call (FastFCNNoContext pad_to_stride backbone F rate) inputs
           = Inr \<lparr>batch = batch padded, height = height inputs div 8,
                  width = width inputs div 8, channels = 1\<rparr>"
proof -
  from bc mult obtain fs where fs: "backbone padded = Inr (PySequence fs)"
    and sf: "strided_features padded (last_three fs)"
    unfolding backbone_contract_def by blast
  from JPUModule_Inr [OF F, of shape_layers tf_concat "[Attr ''upsampling'']"]
  obtain upsampling where
    up: "JPUModule shape_layers tf_concat [Attr ''upsampling''] F = Inr upsampling"
    and call: "\<And>s8 s16 s32. upsampling [s8, s16, s32]
                 = spec_jpu shape_layers tf_concat [Attr ''upsampling''] F s8 s16 s32"
    by blast
  from strided_features_JPU [OF F sf mult, of "[Attr ''upsampling'']"]
  have jpu: "upsampling (last_three fs)
               = Inr \<lparr>batch = batch padded, height = height padded div 8,
                      width = width padded div 8, channels = 4 * F\<rparr>"
    using call by metis
  have "0 < height inputs div 8" "0 < width inputs div 8" using big by simp_all
  then show ?thesis
    using multiple_of_32_div_8_pos [OF mult(1) pos(1)] multiple_of_32_div_8_pos [OF mult(2) pos(2)]
      rate
    by (simp add: build_and_call_def FastFCNNoContext_def up FCNHeadNoContext_Inr Let_def pad fs
        subscript_last_three_def jpu resize_with_crop_or_pad_def)
qed

lemma FastFCN_call_shape:
  assumes pad: "pad_to_stride inputs 32 REFLECT = Inr padded"
    and mult: "32 dvd height padded" "32 dvd width padded"
    and pos: "0 < height padded" "0 < width padded"
    and bc: "backbone_contract backbone" and ec: "encoder_contract encoder"
    and big: "8 \<le> height inputs" "8 \<le> width inputs"
    and F: "0 < F" and rate: "0 \<le> rate" "rate \<le> 1"
  shows "\<exists>l. build_and_call (FastFCN pad_to_stride encoder backbone F rate) inputs
           = Inr (\<lparr>batch = batch padded, height = height inputs div 8,
                   width = width inputs div 8, channels = 1\<rparr>, l)"
proof -
  from bc mult obtain fs where fs: "backbone padded = Inr (PySequence fs)"
    and sf: "strided_features padded (last_three fs)"
    unfolding backbone_contract_def by blast
  from JPUModule_Inr [OF F, of shape_layers tf_concat "[Attr ''upsampling'']"]
  obtain upsampling where
    up: "JPUModule shape_layers tf_concat [Attr ''upsampling''] F = Inr upsampling"
    and call: "\<And>s8 s16 s32. upsampling [s8, s16, s32]
                 = spec_jpu shape_layers tf_concat [Attr ''upsampling''] F s8 s16 s32"
    by blast
  let ?up = "\<lparr>batch = batch padded, height = height padded div 8,
              width = width padded div 8, channels = 4 * F\<rparr>"
  from strided_features_JPU [OF F sf mult, of "[Attr ''upsampling'']"]
  have jpu: "upsampling (last_three fs) = Inr ?up"
    using call by metis
  from EncoderHead_Inr [OF _ rate ec, of 512 "[Attr ''head'']"]
  obtain head where hd: "EncoderHead shape_layers encoder [Attr ''head''] 512 rate = Inr head"
    and hcall: "\<And>x. \<exists>l. head x
                  = Inr (\<lparr>batch = batch x, height = height x, width = width x, channels = 1\<rparr>, l)"
    by auto
  from hcall [of ?up] obtain l where
    head: "head ?up = Inr (\<lparr>batch = batch padded, height = height padded div 8,
                             width = width padded div 8, channels = 1\<rparr>, l)"
    by auto
  have "0 < height inputs div 8" "0 < width inputs div 8" using big by simp_all
  then show ?thesis
    using multiple_of_32_div_8_pos [OF mult(1) pos(1)] multiple_of_32_div_8_pos [OF mult(2) pos(2)]
    by (simp add: build_and_call_def FastFCN_def up hd Let_def pad fs
        subscript_last_three_def jpu head resize_with_crop_or_pad_def)
qed

text \<open>The models consult their backbone at the padded input and nowhere else.\<close>

lemma full_models_backbone_argument:
  assumes pad: "pad_to_stride inputs 32 REFLECT = Inr padded"
    and same: "other padded = backbone padded"
  shows "build_and_call (FastFCN pad_to_stride encoder other F rate) inputs
           = build_and_call (FastFCN pad_to_stride encoder backbone F rate) inputs"
    and "build_and_call (FastFCNNoContext pad_to_stride other F rate) inputs
           = build_and_call (FastFCNNoContext pad_to_stride backbone F rate) inputs"
proof -
  show "build_and_call (FastFCN pad_to_stride encoder other F rate) inputs
           = build_and_call (FastFCN pad_to_stride encoder backbone F rate) inputs"
    by (cases "JPUModule shape_layers tf_concat [Attr ''upsampling''] F";
        cases "EncoderHead shape_layers encoder [Attr ''head''] 512 rate")
       (simp_all add: build_and_call_def FastFCN_def Let_def pad same)
  show "build_and_call (FastFCNNoContext pad_to_stride other F rate) inputs
           = build_and_call (FastFCNNoContext pad_to_stride backbone F rate) inputs"
    by (cases "JPUModule shape_layers tf_concat [Attr ''upsampling''] F";
        cases "FCNHeadNoContext shape_layers [Attr ''head''] 512 rate")
       (simp_all add: build_and_call_def FastFCNNoContext_def Let_def pad same)
qed

lemma full_models_backbone_failure:
  assumes pad: "pad_to_stride inputs 32 REFLECT = Inr padded"
    and fails: "backbone padded = Inl e"
    and F: "0 < F" and rate: "0 \<le> rate" "rate \<le> 1" and ec: "encoder_contract encoder"
  shows "build_and_call (FastFCN pad_to_stride encoder backbone F rate) inputs = Inl e"
    and "build_and_call (FastFCNNoContext pad_to_stride backbone F rate) inputs = Inl e"
proof -
  from JPUModule_Inr [OF F, of shape_layers tf_concat "[Attr ''upsampling'']"]
  obtain upsampling where
    up: "JPUModule shape_layers tf_concat [Attr ''upsampling''] F = Inr upsampling"
    by blast
  from EncoderHead_Inr [OF _ rate ec, of 512 "[Attr ''head'']"]
  obtain head where hd: "EncoderHead shape_layers encoder [Attr ''head''] 512 rate = Inr head"
    by auto
  show "build_and_call (FastFCN pad_to_stride encoder backbone F rate) inputs = Inl e"
    by (simp add: build_and_call_def FastFCN_def up hd Let_def pad fails)
  show "build_and_call (FastFCNNoContext pad_to_stride backbone F rate) inputs = Inl e"
    using rate
    by (simp add: build_and_call_def FastFCNNoContext_def up FCNHeadNoContext_Inr Let_def pad fails)
qed

lemma ceil_div_of_multiple:
  fixes x :: int
  assumes "32 dvd x"
  shows "(x + 8 - 1) div 8 = x div 8" and "(x + 16 - 1) div 16 = x div 16"
    and "(x + 32 - 1) div 32 = x div 32"
proof -
  from assms obtain k where k: "x = 32 * k" by (elim dvdE)
  have "(32 * k + 7) div 8 = 4 * k" "(32 * k) div 8 = 4 * k" by linarith+
  then show "(x + 8 - 1) div 8 = x div 8" by (simp add: k)
  have "(32 * k + 15) div 16 = 2 * k" "(32 * k) div 16 = 2 * k" by linarith+
  then show "(x + 16 - 1) div 16 = x div 16" by (simp add: k)
  have "(32 * k + 31) div 32 = k" by linarith
  then show "(x + 32 - 1) div 32 = x div 32" by (simp add: k)
qed

lemma example_backbone_contract: "backbone_contract example_backbone"
  unfolding backbone_contract_def
proof (intro allI impI)
  fix padded :: shape
  assume "32 dvd height padded \<and> 32 dvd width padded"
  then have h: "32 dvd height padded" and w: "32 dvd width padded" by simp_all
  have "example_backbone padded
          = Inr (PySequence
                 [\<lparr>batch = batch padded, height = height padded div 8,
                   width = width padded div 8, channels = 512\<rparr>,
                 \<lparr>batch = batch padded, height = height padded div 16,
                   width = width padded div 16, channels = 1024\<rparr>,
                 \<lparr>batch = batch padded, height = height padded div 32,
                   width = width padded div 32, channels = 2048\<rparr>])"
    unfolding example_backbone_def layer_shape.simps conv_output_length_def Let_def
    by (simp only: padding.case fst_conv snd_conv ceil_div_of_multiple [OF h]
        ceil_div_of_multiple [OF w])
  then show "\<exists>fs. example_backbone padded = Inr (PySequence fs)
                \<and> strided_features padded (last_three fs)"
    by (simp add: strided_features_def)
qed

lemma unit_encoder_contract: "encoder_contract unit_encoder"
  by (simp add: encoder_contract_def unit_encoder_def)

lemma TestFastFCN_raises: "TestFastFCN jpu_JPUModule jpu_FCNHead F method = Inl TypeError"
  by (simp add: TestFastFCN_def ResNet50Backbone_def)

lemma ResNet50Backbone_object_None:
  "ResNet50Backbone [] = Inr (ResNetBackbone_object ResNet50Backbone_blocks)"
  "ResNetBackbone_object ResNet50Backbone_blocks inputs = Inr PyNone"
  by (simp_all add: ResNet50Backbone_def ResNetBackbone_object_def ResNetBackbone_call_None
      ResNet50Backbone_blocks_def)

lemma pad_384: "pad_to_stride \<lparr>batch = 1, height = 384, width = 384, channels = 3\<rparr> 32 REFLECT
               = Inr \<lparr>batch = 1, height = 416, width = 416, channels = 3\<rparr>"
  by (simp add: pad_to_stride_def pad_to_stride_paddings_def tf_pad_def tf_pad_dim_def
      ceil_half_exact Let_def)

text \<open>
  Claim C7. The context-encoding full model is claimed to return logits of shape
  \<open>[1, 48, 48, 1]\<close> for an input batch of shape \<open>[1, 384, 384, 3]\<close>. Built on the ResNet-50
  backbone of this revision (JPU width 512, dropout rate 0.1), the model pads the batch
  to \<open>[1, 416, 416, 3]\<close>, the backbone returns \<open>None\<close>, and the subscript \<open>[-3:]\<close> of
  \<open>FastFCN.call\<close> raises \<open>TypeError\<close>: no logits are returned.
\<close>

theorem FastFCN_on_ResNet50_raises_TypeError:
  "and_then (ResNet50Backbone [])
     (\<lambda>backbone. build_and_call (FastFCN pad_to_stride unit_encoder backbone 512 (1 / 10))
        \<lparr>batch = 1, height = 384, width = 384, channels = 3\<rparr>)
     = Inl TypeError"
proof -
  have "build_and_call
          (FastFCN pad_to_stride unit_encoder (ResNetBackbone_object ResNet50Backbone_blocks)
             512 (1 / 10))
          \<lparr>batch = 1, height = 384, width = 384, channels = 3\<rparr> = Inl TypeError"
  proof -
    from JPUModule_Inr [of 512 shape_layers tf_concat "[Attr ''upsampling'']"]
    obtain upsampling where
      up: "JPUModule shape_layers tf_concat [Attr ''upsampling''] 512 = Inr upsampling"
      by auto
    from EncoderHead_Inr [OF _ _ _ unit_encoder_contract, of 512 "1 / 10" "[Attr ''head'']"]
    obtain head where
      hd: "EncoderHead shape_layers unit_encoder [Attr ''head''] 512 (1 / 10) = Inr head"
      by auto
    show ?thesis
      by (simp add: build_and_call_def FastFCN_def up hd Let_def pad_384
          ResNet50Backbone_object_None subscript_last_three_def)
  qed
  then show ?thesis by (simp add: ResNet50Backbone_object_None)
qed

lemma pad_8: "pad_to_stride \<lparr>batch = 1, height = 8, width = 8, channels = 3\<rparr> 32 REFLECT
               = Inl InvalidArgumentError"
  by (simp add: pad_to_stride_def pad_to_stride_paddings_def tf_pad_def tf_pad_dim_def
      ceil_half_exact Let_def)

lemma full_models_pad_failure:
  assumes pad: "pad_to_stride inputs 32 REFLECT = Inl e"
    and F: "0 < F" and rate: "0 \<le> rate" "rate \<le> 1"
  shows "build_and_call (FastFCNNoContext pad_to_stride backbone F rate) inputs = Inl e"
proof -
  from JPUModule_Inr [OF F, of shape_layers tf_concat "[Attr ''upsampling'']"]
  obtain upsampling where
    up: "JPUModule shape_layers tf_concat [Attr ''upsampling''] F = Inr upsampling"
    by blast
  show ?thesis
    using rate
    by (simp add: build_and_call_def FastFCNNoContext_def up FCNHeadNoContext_Inr Let_def pad)
qed

text \<open>
  Claim C6 as the specification states it: every full-model variant returns logits of
  spatial shape \<open>(input_height / 8, input_width / 8)\<close> for every 3-channel input batch.
  A batch of 8x8 images is rejected by the reflection padding (12 new rows on either
  side of 8), whatever the backbone: the model without context raises
  \<open>InvalidArgumentError\<close> on the ResNet-50 backbone of this revision and on a backbone
  that returns feature maps at strides 8, 16 and 32. The test variant cannot be built:
  its constructor raises \<open>TypeError\<close>.
\<close>

theorem full_models_reject_small_input:
  "and_then (ResNet50Backbone [])
     (\<lambda>backbone. build_and_call (FastFCNNoContext pad_to_stride backbone 512 (1 / 10))
        \<lparr>batch = 1, height = 8, width = 8, channels = 3\<rparr>)
     = Inl InvalidArgumentError
   \<and> build_and_call (FastFCNNoContext pad_to_stride example_backbone 512 (1 / 10))
        \<lparr>batch = 1, height = 8, width = 8, channels = 3\<rparr>
     = Inl InvalidArgumentError
   \<and> build_and_call
        (TestFastFCN (JPUModule shape_layers tf_concat [Attr ''upsampling''])
           (\<lambda>intermediate_features.
              FCNHead shape_layers [Attr ''head''] intermediate_features (1 / 10))
           512 Bilinear)
        \<lparr>batch = 1, height = 384, width = 384, channels = 3\<rparr>
     = Inl TypeError"
proof -
  have small: "build_and_call (FastFCNNoContext pad_to_stride backbone 512 (1 / 10))
                 \<lparr>batch = 1, height = 8, width = 8, channels = 3\<rparr>
               = Inl InvalidArgumentError" for backbone
    by (rule full_models_pad_failure [OF pad_8]) simp_all
  have test: "build_and_call (TestFastFCN jpu_JPUModule jpu_FCNHead 512 Bilinear) inputs
                = Inl TypeError" for jpu_JPUModule jpu_FCNHead inputs
    by (simp add: build_and_call_def TestFastFCN_raises)
  show ?thesis
    by (simp add: ResNet50Backbone_object_None small test)
qed

text \<open>
  Claim C6, amended. For the context-encoding model and the model without context, built
  with a positive JPU width and a dropout rate in \<open>[0, 1)\<close> on a backbone that returns
  feature maps at strides 8, 16 and 32 (and a context-encoding module that keeps the
  shape of its input), and for every batch of 3-channel images of positive batch size
  and of height and width at least 12: the batch is reflection-padded to multiples of
  32, and that padded batch is what the backbone is applied to (a failure of the
  backbone there is the result of the model, and its values elsewhere do not matter);
  both models return logits with one channel, of spatial shape
  \<open>(height div 8, width div 8)\<close>.
\<close>

theorem full_models_output_shape:
  fixes encoder :: "shape \<Rightarrow> error + shape \<times> 'l"
  assumes "backbone_contract backbone" and "encoder_contract encoder"
    and "0 < jpu_features" and "0 \<le> head_dropout_rate" and "head_dropout_rate < 1"
    and "0 < batch inputs" and "channels inputs = 3"
    and "12 \<le> height inputs" and "12 \<le> width inputs"
  shows "\<exists>padded.
           pad_to_stride inputs 32 REFLECT = Inr padded
         \<and> 32 dvd height padded \<and> 32 dvd width padded
         \<and> (\<forall>e. build_and_call
                   (FastFCN pad_to_stride encoder (backbone(padded := Inl e))
                      jpu_features head_dropout_rate) inputs = Inl e
                \<and> build_and_call
                   (FastFCNNoContext pad_to_stride (backbone(padded := Inl e))
                      jpu_features head_dropout_rate) inputs = Inl e)
         \<and> (\<forall>other. other padded = backbone padded \<longrightarrow>
                  build_and_call
                    (FastFCN pad_to_stride encoder other jpu_features head_dropout_rate) inputs
                  = build_and_call
                    (FastFCN pad_to_stride encoder backbone jpu_features head_dropout_rate) inputs
                \<and> build_and_call
                    (FastFCNNoContext pad_to_stride other jpu_features head_dropout_rate) inputs
                  = build_and_call
                    (FastFCNNoContext pad_to_stride backbone jpu_features head_dropout_rate)
                    inputs)
         \<and> (\<exists>l. build_and_call
                   (FastFCN pad_to_stride encoder backbone jpu_features head_dropout_rate) inputs
                 = Inr (\<lparr>batch = batch inputs, height = height inputs div 8,
                         width = width inputs div 8, channels = 1\<rparr>, l))
         \<and> build_and_call
              (FastFCNNoContext pad_to_stride backbone jpu_features head_dropout_rate) inputs
            = Inr \<lparr>batch = batch inputs, height = height inputs div 8,
                   width = width inputs div 8, channels = 1\<rparr>"
proof -
  from pad_to_stride_32_reflect [of inputs] assms obtain padded where
    pad: "pad_to_stride inputs 32 REFLECT = Inr padded"
    and b: "batch padded = batch inputs"
    and mult: "32 dvd height padded" "32 dvd width padded"
    and pos: "0 < height padded" "0 < width padded"
    by auto
  have big: "8 \<le> height inputs" "8 \<le> width inputs"
    using assms by simp_all
  have rate: "0 \<le> head_dropout_rate" "head_dropout_rate \<le> 1" using assms by simp_all
  note F = assms(3)
  have fail: "build_and_call
                (FastFCN pad_to_stride encoder (backbone(padded := Inl e))
                   jpu_features head_dropout_rate) inputs = Inl e
              \<and> build_and_call
                (FastFCNNoContext pad_to_stride (backbone(padded := Inl e))
                   jpu_features head_dropout_rate) inputs = Inl e" for e
    using full_models_backbone_failure
      [of inputs padded "backbone(padded := Inl e)" e jpu_features head_dropout_rate encoder]
      pad F rate assms(2)
    by simp
  have same: "build_and_call
                (FastFCN pad_to_stride encoder other jpu_features head_dropout_rate) inputs
              = build_and_call
                (FastFCN pad_to_stride encoder backbone jpu_features head_dropout_rate) inputs
              \<and> build_and_call
                (FastFCNNoContext pad_to_stride other jpu_features head_dropout_rate) inputs
              = build_and_call
                (FastFCNNoContext pad_to_stride backbone jpu_features head_dropout_rate) inputs"
    if "other padded = backbone padded" for other
  proof (rule conjI)
    show "build_and_call
            (FastFCN pad_to_stride encoder other jpu_features head_dropout_rate) inputs
          = build_and_call
            (FastFCN pad_to_stride encoder backbone jpu_features head_dropout_rate) inputs"
      using pad that by (rule full_models_backbone_argument(1) [of inputs padded other backbone])
    show "build_and_call
            (FastFCNNoContext pad_to_stride other jpu_features head_dropout_rate) inputs
          = build_and_call
            (FastFCNNoContext pad_to_stride backbone jpu_features head_dropout_rate) inputs"
      using pad that by (rule full_models_backbone_argument(2) [of inputs padded other backbone])
  qed
  from FastFCN_call_shape [OF pad mult pos assms(1) assms(2) big F rate]
  obtain l where ctx: "build_and_call
        (FastFCN pad_to_stride encoder backbone jpu_features head_dropout_rate) inputs
      = Inr (\<lparr>batch = batch inputs, height = height inputs div 8,
              width = width inputs div 8, channels = 1\<rparr>, l)"
    by (auto simp: b)
  have noctx: "build_and_call
        (FastFCNNoContext pad_to_stride backbone jpu_features head_dropout_rate) inputs
      = Inr \<lparr>batch = batch inputs, height = height inputs div 8,
             width = width inputs div 8, channels = 1\<rparr>"
    using FastFCNNoContext_call_shape [OF pad mult pos assms(1) big F rate] by (simp add: b)
  show ?thesis
  proof (rule exI [of _ padded], intro conjI)
    show "pad_to_stride inputs 32 REFLECT = Inr padded" by (rule pad)
    show "32 dvd height padded" "32 dvd width padded" by (rule mult)+
    show "\<forall>e. build_and_call
                   (FastFCN pad_to_stride encoder (backbone(padded := Inl e))
                      jpu_features head_dropout_rate) inputs = Inl e
                \<and> build_and_call
                   (FastFCNNoContext pad_to_stride (backbone(padded := Inl e))
                      jpu_features head_dropout_rate) inputs = Inl e"
      using fail by (rule allI)
    show "\<forall>other. other padded = backbone padded \<longrightarrow>
                  build_and_call
                    (FastFCN pad_to_stride encoder other jpu_features head_dropout_rate) inputs
                  = build_and_call
                    (FastFCN pad_to_stride encoder backbone jpu_features head_dropout_rate) inputs
                \<and> build_and_call
                    (FastFCNNoContext pad_to_stride other jpu_features head_dropout_rate) inputs
                  = build_and_call
                    (FastFCNNoContext pad_to_stride backbone jpu_features head_dropout_rate)
                    inputs"
      using same by (intro allI impI)
    show "\<exists>l. build_and_call
                   (FastFCN pad_to_stride encoder backbone jpu_features head_dropout_rate) inputs
                 = Inr (\<lparr>batch = batch inputs, height = height inputs div 8,
                         width = width inputs div 8, channels = 1\<rparr>, l)"
      using ctx by (rule exI)
    show "build_and_call
              (FastFCNNoContext pad_to_stride backbone jpu_features head_dropout_rate) inputs
            = Inr \<lparr>batch = batch inputs, height = height inputs div 8,
                   width = width inputs div 8, channels = 1\<rparr>"
      by (rule noctx)
  qed
qed

lemma pad_400: "pad_to_stride \<lparr>batch = 4, height = 400, width = 400, channels = 3\<rparr> 32 REFLECT
               = Inr \<lparr>batch = 4, height = 416, width = 416, channels = 3\<rparr>"
  by (simp add: pad_to_stride_def pad_to_stride_paddings_def tf_pad_def tf_pad_dim_def
      ceil_half_exact Let_def)

theorem full_models_output_shape_witness:
  "backbone_contract example_backbone \<and> encoder_contract unit_encoder
   \<and> (0::int) < 512 \<and> (0::real) \<le> 1 / 10 \<and> (1::real) / 10 < 1
   \<and> pad_to_stride \<lparr>batch = 4, height = 400, width = 400, channels = 3\<rparr> 32 REFLECT
       = Inr \<lparr>batch = 4, height = 416, width = 416, channels = 3\<rparr>
   \<and> build_and_call
       (FastFCN pad_to_stride unit_encoder
          (example_backbone(\<lparr>batch = 4, height = 416, width = 416, channels = 3\<rparr>
             := Inl TypeError)) 512 (1 / 10))
       \<lparr>batch = 4, height = 400, width = 400, channels = 3\<rparr> = Inl TypeError
   \<and> build_and_call
       (FastFCN pad_to_stride unit_encoder
          (example_backbone(\<lparr>batch = 4, height = 400, width = 400, channels = 3\<rparr>
             := Inl TypeError)) 512 (1 / 10))
       \<lparr>batch = 4, height = 400, width = 400, channels = 3\<rparr>
     = Inr (\<lparr>batch = 4, height = 50, width = 50, channels = 1\<rparr>, ())
   \<and> build_and_call (FastFCN pad_to_stride unit_encoder example_backbone 512 (1 / 10))
       \<lparr>batch = 4, height = 400, width = 400, channels = 3\<rparr>
     = Inr (\<lparr>batch = 4, height = 50, width = 50, channels = 1\<rparr>, ())
   \<and> build_and_call (FastFCNNoContext pad_to_stride example_backbone 512 (1 / 10))
       \<lparr>batch = 4, height = 400, width = 400, channels = 3\<rparr>
     = Inr \<lparr>batch = 4, height = 50, width = 50, channels = 1\<rparr>"
proof -
  let ?inputs = "\<lparr>batch = 4, height = 400, width = 400, channels = 3\<rparr>"
  let ?padded = "\<lparr>batch = 4, height = 416, width = 416, channels = 3\<rparr>"
  have "\<exists>padded. pad_to_stride ?inputs 32 REFLECT = Inr padded
         \<and> 32 dvd height padded \<and> 32 dvd width padded
         \<and> (\<forall>e. build_and_call
                   (FastFCN pad_to_stride unit_encoder (example_backbone(padded := Inl e))
                      512 (1 / 10)) ?inputs = Inl e
                \<and> build_and_call
                   (FastFCNNoContext pad_to_stride (example_backbone(padded := Inl e))
                      512 (1 / 10)) ?inputs = Inl e)
         \<and> (\<forall>other. other padded = example_backbone padded \<longrightarrow>
                  build_and_call (FastFCN pad_to_stride unit_encoder other 512 (1 / 10)) ?inputs
                  = build_and_call
                      (FastFCN pad_to_stride unit_encoder example_backbone 512 (1 / 10)) ?inputs
                \<and> build_and_call (FastFCNNoContext pad_to_stride other 512 (1 / 10)) ?inputs
                  = build_and_call
                      (FastFCNNoContext pad_to_stride example_backbone 512 (1 / 10)) ?inputs)
         \<and> (\<exists>l. build_and_call
                   (FastFCN pad_to_stride unit_encoder example_backbone 512 (1 / 10)) ?inputs
                 = Inr (\<lparr>batch = batch ?inputs, height = height ?inputs div 8,
                         width = width ?inputs div 8, channels = 1\<rparr>, l))
         \<and> build_and_call
              (FastFCNNoContext pad_to_stride example_backbone 512 (1 / 10)) ?inputs
            = Inr \<lparr>batch = batch ?inputs, height = height ?inputs div 8,
                   width = width ?inputs div 8, channels = 1\<rparr>"
    by (rule full_models_output_shape
          [OF example_backbone_contract unit_encoder_contract, of 512 "1 / 10" ?inputs])
       simp_all
  then obtain padded where
    pad: "pad_to_stride ?inputs 32 REFLECT = Inr padded"
    and fail: "\<And>e. build_and_call
                 (FastFCN pad_to_stride unit_encoder (example_backbone(padded := Inl e))
                    512 (1 / 10)) ?inputs = Inl e"
    and same: "\<And>other. other padded = example_backbone padded \<Longrightarrow>
                 build_and_call (FastFCN pad_to_stride unit_encoder other 512 (1 / 10)) ?inputs
                 = build_and_call
                     (FastFCN pad_to_stride unit_encoder example_backbone 512 (1 / 10)) ?inputs"
    and ctx: "\<exists>l. build_and_call
                 (FastFCN pad_to_stride unit_encoder example_backbone 512 (1 / 10)) ?inputs
               = Inr (\<lparr>batch = batch ?inputs, height = height ?inputs div 8,
                         width = width ?inputs div 8, channels = 1\<rparr>, l)"
    and noctx: "build_and_call
                 (FastFCNNoContext pad_to_stride example_backbone 512 (1 / 10)) ?inputs
               = Inr \<lparr>batch = batch ?inputs, height = height ?inputs div 8,
                   width = width ?inputs div 8, channels = 1\<rparr>"
    by blast
  from pad have padded: "padded = ?padded" by (simp add: pad_400)
  have other: "(example_backbone(?inputs := Inl TypeError)) padded = example_backbone padded"
    by (simp add: padded)
  from ctx have ctx': "build_and_call
                 (FastFCN pad_to_stride unit_encoder example_backbone 512 (1 / 10)) ?inputs
               = Inr (\<lparr>batch = 4, height = 50, width = 50, channels = 1\<rparr>, ())"
    by simp
  show ?thesis
    using fail [of TypeError] same [of "example_backbone(?inputs := Inl TypeError)"] other
      ctx' noctx
    by (simp add: example_backbone_contract unit_encoder_contract pad_400 padded)
qed

section \<open>Properties of the augmentation pipeline\<close>

lemma binary_tensor_iff:
  "binary_tensor t \<longleftrightarrow>
     (\<forall>i<rows t. \<forall>j<cols t. \<forall>k<chans t. elem t i j k = 0 \<or> elem t i j k = 1)"
  by (simp add: binary_tensor_def list_all_iff Ball_def)

lemma nearest_index_less: "0 < n \<Longrightarrow> nearest_index n m y < n"
  by (simp add: nearest_index_def)

lemma resize_nearest_binary:
  assumes "binary_tensor m" and "resize_nearest sz m = Inr m'"
  shows "binary_tensor m' \<and> chans m' = chans m
       \<and> rows m' = nat (fst sz) \<and> cols m' = nat (snd sz)"
proof -
  from assms(2) have pos: "0 < rows m" "0 < cols m"
    and m': "m' = \<lparr>rows = nat (fst sz), cols = nat (snd sz), chans = chans m,
              elem = (\<lambda>y x c. elem m (nearest_index (rows m) (nat (fst sz)) y)
                                      (nearest_index (cols m) (nat (snd sz)) x) c)\<rparr>"
    by (auto simp: resize_nearest_def split: if_splits)
  show ?thesis
    using assms(1) nearest_index_less [OF pos(1)] nearest_index_less [OF pos(2)]
    by (simp add: binary_tensor_iff m')
qed

lemma concat_mask_channel:
  assumes "concat_channels a b = Inr c" and "chans a = 3" and "chans b = 1"
    and "binary_tensor b"
  shows "chans c = 4 \<and> rows c = rows a \<and> cols c = cols a
       \<and> (\<forall>i<rows c. \<forall>j<cols c. elem c i j 3 = 0 \<or> elem c i j 3 = 1)"
proof -
  from assms(1) have eq: "rows a = rows b" "cols a = cols b"
    and c: "c = \<lparr>rows = rows a, cols = cols a, chans = chans a + chans b,
             elem = (\<lambda>y x c. if c < chans a then elem a y x c else elem b y x (c - chans a))\<rparr>"
    by (auto simp: concat_channels_def split: if_splits)
  show ?thesis using assms(2-4) eq by (simp add: c binary_tensor_iff)
qed

lemma flip_mask_channel:
  assumes "\<forall>i<rows t. \<forall>j<cols t. elem t i j 3 = 0 \<or> elem t i j 3 = 1"
  shows "chans (random_flip_left_right coin t) = chans t
       \<and> rows (random_flip_left_right coin t) = rows t
       \<and> cols (random_flip_left_right coin t) = cols t
       \<and> (\<forall>i<rows t. \<forall>j<cols t. elem (random_flip_left_right coin t) i j 3 = 0
                                   \<or> elem (random_flip_left_right coin t) i j 3 = 1)"
proof -
  have "cols t - 1 - j < cols t" if "j < cols t" for j using that by simp
  with assms show ?thesis
    by (simp add: random_flip_left_right_def flip_left_right_def)
qed

lemma rot90_mask_channel:
  assumes "\<forall>i<rows t. \<forall>j<cols t. elem t i j 3 = 0 \<or> elem t i j 3 = 1"
  shows "chans (rot90 k t) = chans t
       \<and> rows (rot90 k t) = (if odd k then cols t else rows t)
       \<and> cols (rot90 k t) = (if odd k then rows t else cols t)
       \<and> (\<forall>i<rows (rot90 k t). \<forall>j<cols (rot90 k t).
             elem (rot90 k t) i j 3 = 0 \<or> elem (rot90 k t) i j 3 = 1)"
proof -
  have c: "cols t - 1 - j < cols t" if "j < cols t" for j using that by simp
  have r: "rows t - 1 - i < rows t" if "i < rows t" for i using that by simp
  have cases: "k mod 4 = 0 \<or> k mod 4 = 1 \<or> k mod 4 = 2 \<or> k mod 4 = 3" by linarith
  have parity: "odd k \<longleftrightarrow> k mod 4 = 1 \<or> k mod 4 = 3" by presburger
  from cases show ?thesis
  proof (elim disjE)
    assume "k mod 4 = 0"
    with assms parity show ?thesis by (simp add: rot90_def)
  next
    assume "k mod 4 = 1"
    with assms parity c show ?thesis by (simp add: rot90_def)
  next
    assume "k mod 4 = 2"
    with assms parity c r show ?thesis by (simp add: rot90_def)
  next
    assume "k mod 4 = 3"
    with assms parity r show ?thesis by (simp add: rot90_def)
  qed
qed

lemma random_crop_mask_channel:
  assumes "random_crop t (sy, sx, 4) u = Inr c" and "chans t = 4"
    and "\<forall>i<rows t. \<forall>j<cols t. elem t i j 3 = 0 \<or> elem t i j 3 = 1"
  shows "chans c = 4 \<and> rows c = sy \<and> cols c = sx
       \<and> (\<forall>i<rows c. \<forall>j<cols c. elem c i j 3 = 0 \<or> elem c i j 3 = 1)"
proof -
  obtain u_y u_x u_c where u: "u = (u_y, u_x, u_c)" by (cases u) auto
  from assms(1) have fit: "sy \<le> rows t" "sx \<le> cols t"
    and c: "c = \<lparr>rows = sy, cols = sx, chans = 4,
              elem = (\<lambda>y x c. elem t (u_y mod (rows t - sy + 1) + y)
                                      (u_x mod (cols t - sx + 1) + x)
                                      (u_c mod (chans t - 4 + 1) + c))\<rparr>"
    by (auto simp: random_crop_def u Let_def split: if_splits)
  have y: "u_y mod (rows t - sy + 1) + i < rows t" if "i < sy" for i
  proof -
    have "u_y mod (rows t - sy + 1) < rows t - sy + 1" by simp
    with that fit show ?thesis by linarith
  qed
  have x: "u_x mod (cols t - sx + 1) + j < cols t" if "j < sx" for j
  proof -
    have "u_x mod (cols t - sx + 1) < cols t - sx + 1" by simp
    with that fit show ?thesis by linarith
  qed
  show ?thesis using assms(2,3) x y by (simp add: c)
qed

lemma tf_round_zero_one [simp]: "tf_round 0 = 0" "tf_round 1 = 1"
  by (simp_all add: tf_round_def)

lemma round_mask_binary:
  assumes "chans c = 4"
    and "\<forall>i<rows c. \<forall>j<cols c. elem c i j 3 = 0 \<or> elem c i j 3 = 1"
  shows "binary_tensor (round_tensor (channels_from 3 c))
       \<and> chans (round_tensor (channels_from 3 c)) = 1
       \<and> rows (round_tensor (channels_from 3 c)) = rows c
       \<and> cols (round_tensor (channels_from 3 c)) = cols c"
proof -
  have "tf_round (elem c i j 3) = 0 \<or> tf_round (elem c i j 3) = 1"
    if "i < rows c" "j < cols c" for i j
    using assms(2) that by (metis tf_round_zero_one)
  then show ?thesis
    using assms(1) by (simp add: binary_tensor_iff round_tensor_def channels_from_def)
qed

lemma blur_or_not_shape:
  assumes "(if b then augment_blur params fk img else Inr img) = Inr blurred"
  shows "rows blurred = rows img \<and> cols blurred = cols img \<and> chans blurred = chans img"
  using assms by (auto simp: augment_blur_def Let_def split: if_splits)

lemma resize_bilinear_shape:
  assumes "resize_bilinear fk sz t = Inr t'"
  shows "rows t' = nat (fst sz) \<and> cols t' = nat (snd sz) \<and> chans t' = chans t"
  using assms by (auto simp: resize_bilinear_def split: if_splits)

lemma augment_sample_Inr:
  assumes res: "augment_sample params fk draws img label_mask = Inr (out_image, out_mask)"
    and img: "chans img = 3" and msk: "chans label_mask = 1"
    and bin: "binary_tensor label_mask"
  shows "binary_tensor out_mask \<and> chans out_mask = 1
       \<and> rows out_mask = fst (training_image_size params)
       \<and> cols out_mask = snd (training_image_size params)"
proof -
  define scaled_size where
    "scaled_size blurred = (tf_round (real (rows blurred) * scaling_factor draws),
                            tf_round (real (cols blurred) * scaling_factor draws))"
    for blurred :: tensor3
  from res obtain blurred scaled_image scaled_mask concatenated cropped where
    blur: "(if blur_uniform draws < augmentation_blur_probability params
            then augment_blur params fk img else Inr img) = Inr blurred"
    and si: "resize_bilinear fk (scaled_size blurred) blurred = Inr scaled_image"
    and sm: "resize_nearest (scaled_size blurred) label_mask = Inr scaled_mask"
    and cc: "concat_channels scaled_image scaled_mask = Inr concatenated"
    and cr: "random_crop
               (rot90 (num_rotations draws)
                  (random_flip_left_right (flip_coin draws) concatenated))
               (fst (training_image_size params), snd (training_image_size params), 4)
               (crop_uniform draws) = Inr cropped"
    and om: "out_mask = round_tensor (channels_from 3 cropped)"
    unfolding augment_sample_def Let_def and_then_eq_Inr scaled_size_def by auto
  from blur_or_not_shape [OF blur] img have b3: "chans blurred = 3" by simp
  from resize_bilinear_shape [OF si] b3 have s3: "chans scaled_image = 3" by simp
  from resize_nearest_binary [OF bin sm] msk
  have m1: "chans scaled_mask = 1" and mb: "binary_tensor scaled_mask" by simp_all
  from concat_mask_channel [OF cc s3 m1 mb]
  have c4: "chans concatenated = 4"
    and cb: "\<forall>i<rows concatenated. \<forall>j<cols concatenated.
               elem concatenated i j 3 = 0 \<or> elem concatenated i j 3 = 1"
    by simp_all
  let ?f = "random_flip_left_right (flip_coin draws) concatenated"
  from flip_mask_channel [OF cb, of "flip_coin draws"] c4
  have f4: "chans ?f = 4"
    and fb: "\<forall>i<rows ?f. \<forall>j<cols ?f. elem ?f i j 3 = 0 \<or> elem ?f i j 3 = 1"
    by simp_all
  let ?r = "rot90 (num_rotations draws) ?f"
  from rot90_mask_channel [OF fb, of "num_rotations draws"] f4
  have r4: "chans ?r = 4"
    and rb: "\<forall>i<rows ?r. \<forall>j<cols ?r. elem ?r i j 3 = 0 \<or> elem ?r i j 3 = 1"
    by simp_all
  from random_crop_mask_channel [OF cr r4 rb]
  have k4: "chans cropped = 4"
    and ks: "rows cropped = fst (training_image_size params)"
            "cols cropped = snd (training_image_size params)"
    and kb: "\<forall>i<rows cropped. \<forall>j<cols cropped. elem cropped i j 3 = 0 \<or> elem cropped i j 3 = 1"
    by simp_all
  from round_mask_binary [OF k4 kb] ks show ?thesis unfolding om by simp
qed

lemma augment_sample_returns:
  assumes img: "chans img = 3" "0 < rows img" "0 < cols img"
    and msk: "0 < rows label_mask" "0 < cols label_mask" "chans label_mask = 1"
    and blur: "blur_uniform draws < augmentation_blur_probability params \<Longrightarrow>
                 odd (augmentation_blur_size params)
               \<and> augmentation_blur_size params div 2 < rows img
               \<and> augmentation_blur_size params div 2 < cols img"
    and sh: "sh = tf_round (real (rows img) * scaling_factor draws)" "0 < sh"
    and sw: "sw = tf_round (real (cols img) * scaling_factor draws)" "0 < sw"
    and fits: "if odd (num_rotations draws)
               then int (fst (training_image_size params)) \<le> sw
                  \<and> int (snd (training_image_size params)) \<le> sh
               else int (fst (training_image_size params)) \<le> sh
                  \<and> int (snd (training_image_size params)) \<le> sw"
  shows "\<exists>out_image out_mask.
           augment_sample params fk draws img label_mask = Inr (out_image, out_mask)"
proof -
  let ?b = "blur_uniform draws < augmentation_blur_probability params"
  have "\<exists>blurred. (if ?b then augment_blur params fk img else Inr img) = Inr blurred"
  proof (cases ?b)
    case True
    from blur [OF True] obtain k where k: "augmentation_blur_size params = 2 * k + 1"
      by (auto elim: oddE)
    with blur [OF True] True img show ?thesis
      by (simp add: augment_blur_def Let_def)
  next
    case False
    then show ?thesis by simp
  qed
  then obtain blurred where
    blurred: "(if ?b then augment_blur params fk img else Inr img) = Inr blurred" by blast
  from blur_or_not_shape [OF blurred] img
  have bs: "rows blurred = rows img" "cols blurred = cols img" "chans blurred = 3" by simp_all
  let ?size = "(sh, sw)"
  define scaled_image where
    "scaled_image = \<lparr>rows = nat sh, cols = nat sw, chans = chans blurred,
                      elem = bilinear_values fk (nat sh, nat sw) blurred\<rparr>"
  have si: "resize_bilinear fk ?size blurred = Inr scaled_image"
    using sh(2) sw(2) bs img by (simp add: resize_bilinear_def scaled_image_def)
  define scaled_mask where
    "scaled_mask = \<lparr>rows = nat sh, cols = nat sw, chans = chans label_mask,
                     elem = (\<lambda>y x c. elem label_mask
                                        (nearest_index (rows label_mask) (nat sh) y)
                                        (nearest_index (cols label_mask) (nat sw) x) c)\<rparr>"
  have sm: "resize_nearest ?size label_mask = Inr scaled_mask"
    using sh(2) sw(2) msk by (simp add: resize_nearest_def scaled_mask_def)
  obtain concatenated where cc: "concat_channels scaled_image scaled_mask = Inr concatenated"
    and cs: "rows concatenated = nat sh" "cols concatenated = nat sw"
            "chans concatenated = 3 + chans label_mask"
    by (simp add: concat_channels_def scaled_image_def scaled_mask_def bs)
  let ?f = "random_flip_left_right (flip_coin draws) concatenated"
  have fs: "rows ?f = nat sh" "cols ?f = nat sw" "chans ?f = 3 + chans label_mask"
    using cs by (simp_all add: random_flip_left_right_def flip_left_right_def)
  let ?r = "rot90 (num_rotations draws) ?f"
  have cases: "num_rotations draws mod 4 = 0 \<or> num_rotations draws mod 4 = 1
             \<or> num_rotations draws mod 4 = 2 \<or> num_rotations draws mod 4 = 3" by linarith
  have parity: "odd (num_rotations draws) \<longleftrightarrow>
                  num_rotations draws mod 4 = 1 \<or> num_rotations draws mod 4 = 3"
    by presburger
  have rs: "rows ?r = (if odd (num_rotations draws) then nat sw else nat sh)"
           "cols ?r = (if odd (num_rotations draws) then nat sh else nat sw)"
           "chans ?r = 3 + chans label_mask"
    using cases parity fs by (auto simp: rot90_def)
  obtain u_y u_x u_c where u: "crop_uniform draws = (u_y, u_x, u_c)"
    by (cases "crop_uniform draws") auto
  let ?crop_size = "(fst (training_image_size params), snd (training_image_size params), 4::nat)"
  have fit: "fst (training_image_size params) \<le> rows ?r"
            "snd (training_image_size params) \<le> cols ?r"
    using fits rs(1,2) by (auto split: if_splits)
  obtain cropped where cr: "random_crop ?r ?crop_size (crop_uniform draws) = Inr cropped"
    and k4: "chans cropped = 4"
    using fit rs(3) msk(3) by (simp add: random_crop_def u Let_def)
  have lab: "convert_colorspace fk (channels_upto 3 cropped)
               = Inr ((channels_upto 3 cropped)\<lparr>elem := lab_values fk (channels_upto 3 cropped)\<rparr>)"
    using k4 by (simp add: convert_colorspace_def channels_upto_def)
  have size: "(tf_round (real (rows blurred) * scaling_factor draws),
               tf_round (real (cols blurred) * scaling_factor draws)) = ?size"
    using bs sh(1) sw(1) by simp
  show ?thesis
    unfolding augment_sample_def Let_def
    by (simp only: blurred and_then_Inr size si sm cc cr lab) blast
qed

lemma example_mask_binary: "binary_tensor example_mask"
  by (simp add: binary_tensor_iff example_mask_def)

text \<open>
  Claim C8. For every three-channel image, every one-channel mask whose elements are
  all 0 or 1, every choice of the floating-point kernels and every outcome of the random
  draws (blur, scale factor, flip, number of rotations, crop position): every element of
  the mask that the augmentation pipeline returns is 0 or 1, and the mask has the
  training image size and one channel. The pipeline does return a sample whenever the
  image and the mask are not empty, the blur (if drawn) fits the image, and the scaled,
  rotated sample is at least as large as the crop.
\<close>

theorem augment_sample_mask_binary:
  assumes "chans img = 3" and "chans label_mask = 1" and "binary_tensor label_mask"
  shows "(\<forall>out_image out_mask.
            augment_sample params fk draws img label_mask = Inr (out_image, out_mask) \<longrightarrow>
              binary_tensor out_mask \<and> chans out_mask = 1
            \<and> rows out_mask = fst (training_image_size params)
            \<and> cols out_mask = snd (training_image_size params))
       \<and> (0 < rows img \<and> 0 < cols img \<and> 0 < rows label_mask \<and> 0 < cols label_mask
          \<and> (blur_uniform draws < augmentation_blur_probability params \<longrightarrow>
                 odd (augmentation_blur_size params)
               \<and> augmentation_blur_size params div 2 < rows img
               \<and> augmentation_blur_size params div 2 < cols img)
          \<and> (let sh = tf_round (real (rows img) * scaling_factor draws);
                  sw = tf_round (real (cols img) * scaling_factor draws)
              in 0 < sh \<and> 0 < sw
               \<and> (if odd (num_rotations draws)
                   then int (fst (training_image_size params)) \<le> sw
                      \<and> int (snd (training_image_size params)) \<le> sh
                   else int (fst (training_image_size params)) \<le> sh
                      \<and> int (snd (training_image_size params)) \<le> sw))
          \<longrightarrow> (\<exists>out_image out_mask.
                 augment_sample params fk draws img label_mask = Inr (out_image, out_mask)))"
    (is "?binary \<and> (?conditions \<longrightarrow> ?returns)")
proof (rule conjI)
  show ?binary
    using augment_sample_Inr [OF _ assms] by blast
next
  show "?conditions \<longrightarrow> ?returns"
  proof (rule impI)
  assume a: ?conditions
  show ?returns
  proof (rule augment_sample_returns [OF assms(1) _ _ _ _ assms(2) _ refl _ refl])
    show "0 < rows img" "0 < cols img" "0 < rows label_mask" "0 < cols label_mask"
      using a by simp_all
    show "odd (augmentation_blur_size params)
        \<and> augmentation_blur_size params div 2 < rows img
        \<and> augmentation_blur_size params div 2 < cols img"
      if "blur_uniform draws < augmentation_blur_probability params"
      using a that by simp
    show "0 < tf_round (real (rows img) * scaling_factor draws)"
         "0 < tf_round (real (cols img) * scaling_factor draws)"
      using a by (simp_all add: Let_def)
    show "if odd (num_rotations draws)
          then int (fst (training_image_size params))
                 \<le> tf_round (real (cols img) * scaling_factor draws)
             \<and> int (snd (training_image_size params))
                 \<le> tf_round (real (rows img) * scaling_factor draws)
          else int (fst (training_image_size params))
                 \<le> tf_round (real (rows img) * scaling_factor draws)
             \<and> int (snd (training_image_size params))
                 \<le> tf_round (real (cols img) * scaling_factor draws)"
      using a by (simp add: Let_def)
  qed
  qed
qed

theorem augment_sample_mask_binary_witness:
  "chans example_image = 3 \<and> chans example_mask = 1 \<and> binary_tensor example_mask
   \<and> (\<exists>out_image out_mask.
         augment_sample example_parameters example_kernels example_draws
           example_image example_mask = Inr (out_image, out_mask)
       \<and> binary_tensor out_mask \<and> rows out_mask = 2 \<and> cols out_mask = 2
       \<and> chans out_mask = 1)"
proof -
  have i: "chans example_image = 3" by (simp add: example_image_def)
  have m: "chans example_mask = 1" by (simp add: example_mask_def)
  have r: "tf_round 3 = 3" by (simp add: tf_round_def)
  note t = augment_sample_mask_binary [OF i m example_mask_binary,
      of example_parameters example_kernels example_draws]
  have "\<exists>out_image out_mask.
          augment_sample example_parameters example_kernels example_draws
            example_image example_mask = Inr (out_image, out_mask)"
    by (rule t [THEN conjunct2, rule_format])
       (simp add: example_image_def example_mask_def example_parameters_def example_draws_def r
          Let_def)
  then obtain out_image out_mask where
    res: "augment_sample example_parameters example_kernels example_draws
            example_image example_mask = Inr (out_image, out_mask)" by blast
  from t [THEN conjunct1, rule_format, OF res] res i m example_mask_binary
  show ?thesis by (simp add: example_parameters_def)
qed

end
